theory Spec2Isabelle
  imports Main "HOL-Library.Char_ord" "HOL-Library.List_Lexorder" "HOL-Library.Sublist"
begin

section \<open>Standard-library operations the client calls\<close>

text \<open>
  The client (\<^verbatim>\<open>client.go\<close>) is glue around Go's standard library. Every library call
  that decides what a request looks like or how a response is read is written out here
  from the library's behaviour, on bytes (\<^typ>\<open>char\<close> is a byte, \<^typ>\<open>string\<close> a byte
  sequence, as Go's \<^verbatim>\<open>string\<close> is). What is taken as given instead is named where it
  enters: the parsing of a URL, the transport, and the parsing of a timestamp.
\<close>

subsection \<open>Decimal printing: \<^verbatim>\<open>fmt.Sprintf("%d", n)\<close>\<close>

text \<open>
  Go's \<^verbatim>\<open>int\<close> is modelled by \<^typ>\<open>int\<close>: the client never computes with \<^verbatim>\<open>Max\<close>
  or \<^verbatim>\<open>Page\<close>, it only tests their sign and prints them, so no operation can wrap.
\<close>

definition digit_char :: "nat \<Rightarrow> char" where
  "digit_char d = ''0123456789'' ! d"

fun show_nat :: "nat \<Rightarrow> string" where
  "show_nat n =
     (if n < 10 then [digit_char n] else show_nat (n div 10) @ [digit_char (n mod 10)])"

declare show_nat.simps [simp del]

definition Sprintf_d :: "int \<Rightarrow> string" where
  "Sprintf_d n = (if n < 0 then CHR ''-'' # show_nat (nat (- n)) else show_nat (nat n))"

subsection \<open>\<^verbatim>\<open>strings.Join\<close>\<close>

fun Join :: "string list \<Rightarrow> string \<Rightarrow> string" where
  "Join [] sep = []"
| "Join [x] sep = x"
| "Join (x # y # ys) sep = x @ sep @ Join (y # ys) sep"

subsection \<open>\<^verbatim>\<open>time.Time\<close> and \<^verbatim>\<open>Format(time.RFC3339)\<close>\<close>

text \<open>
  A \<^verbatim>\<open>time.Time\<close> is represented by what \<^verbatim>\<open>Format\<close> reads from it: the calendar date
  and the clock in the value's own location, and that location's offset from UTC in
  seconds (what \<^verbatim>\<open>t.Date()\<close>, \<^verbatim>\<open>t.Clock()\<close> and \<^verbatim>\<open>t.Zone()\<close> return). The layout
  \<^verbatim>\<open>2006-01-02T15:04:05Z07:00\<close> has no fractional seconds, so none are kept.
\<close>

record Time =
  Year :: int
  Month :: nat
  Day :: nat
  Hour :: nat
  Minute :: nat
  Second :: nat
  ZoneOffset :: int

text \<open>
  \<^verbatim>\<open>appendInt(b, x, width)\<close> of package time: a minus sign for a negative number, then
  the decimal digits padded with zeros on the left up to \<^verbatim>\<open>width\<close>.
\<close>

definition appendInt :: "int \<Rightarrow> nat \<Rightarrow> string" where
  "appendInt x width =
     (let ds = show_nat (nat \<bar>x\<bar>) in
      (if x < 0 then ''-'' else []) @ replicate (width - length ds) CHR ''0'' @ ds)"

text \<open>
  The zone is printed as \<^verbatim>\<open>Z\<close> at offset 0, and else as sign, hours and minutes of
  \<^verbatim>\<open>offset / 60\<close>. Go's integer division truncates towards zero, HOL's \<open>div\<close> rounds
  down, so the quotient is taken on the absolute value.
\<close>

definition format_zone :: "int \<Rightarrow> string" where
  "format_zone off =
     (if off = 0 then ''Z''
      else (let zone = sgn off * (\<bar>off\<bar> div 60) in
            (if zone < 0 then ''-'' else ''+'')
            @ appendInt (\<bar>zone\<bar> div 60) 2 @ '':'' @ appendInt (\<bar>zone\<bar> mod 60) 2))"

definition Format_RFC3339 :: "Time \<Rightarrow> string" where
  "Format_RFC3339 t =
     appendInt (Year t) 4 @ ''-'' @ appendInt (int (Month t)) 2 @ ''-''
     @ appendInt (int (Day t)) 2 @ ''T'' @ appendInt (int (Hour t)) 2 @ '':''
     @ appendInt (int (Minute t)) 2 @ '':'' @ appendInt (int (Second t)) 2
     @ format_zone (ZoneOffset t)"

subsection \<open>\<^verbatim>\<open>url.Values\<close>, \<^verbatim>\<open>url.QueryEscape\<close> and \<^verbatim>\<open>Values.Encode\<close>\<close>

text \<open>
  \<^verbatim>\<open>url.Values\<close> is \<^verbatim>\<open>map[string][]string\<close>: here an association list with one entry
  per key. \<^verbatim>\<open>Add\<close> appends the value to the key's list; reading a key that is not
  there gives the empty list, as reading a missing key of a Go map gives nil.
\<close>

type_synonym Values = "(string \<times> string list) list"

fun Add :: "Values \<Rightarrow> string \<Rightarrow> string \<Rightarrow> Values" where
  "Add [] key v = [(key, [v])]"
| "Add ((k, vs) # m) key v = (if k = key then (k, vs @ [v]) # m else (k, vs) # Add m key v)"

definition lookup :: "Values \<Rightarrow> string \<Rightarrow> string list" where
  "lookup m key = (case map_of m key of None \<Rightarrow> [] | Some vs \<Rightarrow> vs)"

text \<open>
  \<^verbatim>\<open>QueryEscape\<close>: letters, digits and \<^verbatim>\<open>-_.~\<close> stay, a space becomes \<^verbatim>\<open>+\<close>, every
  other byte becomes \<^verbatim>\<open>%XX\<close> in upper-case hexadecimal.
\<close>

definition upperhex :: "nat \<Rightarrow> char" where
  "upperhex n = ''0123456789ABCDEF'' ! n"

definition shouldEscape :: "char \<Rightarrow> bool" where
  "shouldEscape c \<longleftrightarrow>
     \<not> ((CHR ''a'' \<le> c \<and> c \<le> CHR ''z'') \<or> (CHR ''A'' \<le> c \<and> c \<le> CHR ''Z'')
        \<or> (CHR ''0'' \<le> c \<and> c \<le> CHR ''9'') \<or> c \<in> set ''-_.~'')"

definition escape_byte :: "char \<Rightarrow> string" where
  "escape_byte c =
     (if c = CHR '' '' then ''+''
      else if shouldEscape c
        then [CHR ''%'', upperhex (of_char c div 16), upperhex (of_char c mod 16)]
      else [c])"

definition QueryEscape :: "string \<Rightarrow> string" where
  "QueryEscape s = concat (map escape_byte s)"

text \<open>
  \<^verbatim>\<open>Encode\<close> walks the keys in sorted order (byte-wise, as Go compares strings) and
  writes \<^verbatim>\<open>key=value\<close> for every value of the key, both escaped, with \<^verbatim>\<open>&\<close> between
  the pairs.
\<close>

definition pairs :: "Values \<Rightarrow> (string \<times> string) list" where
  "pairs m = concat (map (\<lambda>k. map (\<lambda>v. (k, v)) (lookup m k)) (sort (map fst m)))"

definition segment :: "string \<times> string \<Rightarrow> string" where
  "segment p = QueryEscape (fst p) @ ''='' @ QueryEscape (snd p)"

definition Encode :: "Values \<Rightarrow> string" where
  "Encode m = Join (map segment (pairs m)) ''&''"

subsection \<open>Reading a query string back: \<^verbatim>\<open>url.QueryUnescape\<close> and \<^verbatim>\<open>url.ParseQuery\<close>\<close>

text \<open>
  The client never parses a query; the server does. To say what an encoded query
  holds, the reading side of package \<^verbatim>\<open>net/url\<close> is written out as well.
  \<^verbatim>\<open>QueryUnescape\<close> turns \<^verbatim>\<open>+\<close> into a space and \<^verbatim>\<open>%XX\<close> into the byte, and fails on a
  \<^verbatim>\<open>%\<close> that two hexadecimal digits do not follow. \<^verbatim>\<open>ParseQuery\<close> cuts the query at
  every \<^verbatim>\<open>&\<close>, skips empty pieces, refuses a piece with a semicolon, cuts each piece
  at its first \<^verbatim>\<open>=\<close> and unescapes both halves. Its result is kept as the list of
  pairs in the order of the query (the map it fills has, under each key, the values in
  this order); \<open>None\<close> stands for a query it reports an error for.
\<close>

definition ishex :: "char \<Rightarrow> bool" where
  "ishex c \<longleftrightarrow>
     (CHR ''0'' \<le> c \<and> c \<le> CHR ''9'') \<or> (CHR ''a'' \<le> c \<and> c \<le> CHR ''f'')
     \<or> (CHR ''A'' \<le> c \<and> c \<le> CHR ''F'')"

definition unhex :: "char \<Rightarrow> nat" where
  "unhex c =
     (if CHR ''0'' \<le> c \<and> c \<le> CHR ''9'' then of_char c - 48
      else if CHR ''a'' \<le> c \<and> c \<le> CHR ''f'' then of_char c - 97 + 10
      else if CHR ''A'' \<le> c \<and> c \<le> CHR ''F'' then of_char c - 65 + 10
      else 0)"

fun QueryUnescape :: "string \<Rightarrow> string option" where
  "QueryUnescape [] = Some []"
| "QueryUnescape (c # cs) =
     (if c = CHR ''%'' then
        (case cs of
           h1 # h2 # rest \<Rightarrow>
             if ishex h1 \<and> ishex h2
             then map_option ((#) (char_of (unhex h1 * 16 + unhex h2))) (QueryUnescape rest)
             else None
         | _ \<Rightarrow> None)
      else if c = CHR ''+'' then map_option ((#) CHR '' '') (QueryUnescape cs)
      else map_option ((#) c) (QueryUnescape cs))"

fun split_on :: "char \<Rightarrow> string \<Rightarrow> string list" where
  "split_on sep [] = [[]]"
| "split_on sep (c # cs) =
     (if c = sep then [] # split_on sep cs
      else (case split_on sep cs of p # ps \<Rightarrow> (c # p) # ps | [] \<Rightarrow> [[c]]))"

fun Cut :: "string \<Rightarrow> char \<Rightarrow> string \<times> string" where
  "Cut [] sep = ([], [])"
| "Cut (c # cs) sep = (if c = sep then ([], cs) else (c # fst (Cut cs sep), snd (Cut cs sep)))"

definition parse_pair :: "string \<Rightarrow> (string \<times> string) option" where
  "parse_pair p =
     (if CHR '';'' \<in> set p then None
      else case QueryUnescape (fst (Cut p CHR ''='')) of
             None \<Rightarrow> None
           | Some key \<Rightarrow> map_option (Pair key) (QueryUnescape (snd (Cut p CHR ''=''))))"

definition pieces :: "string \<Rightarrow> string list" where
  "pieces query = filter (\<lambda>p. p \<noteq> []) (split_on CHR ''&'' query)"

definition ParseQuery :: "string \<Rightarrow> (string \<times> string) list option" where
  "ParseQuery query = those (map parse_pair (pieces query))"

subsection \<open>Response bodies and \<^verbatim>\<open>io.ReadAll\<close>\<close>

text \<open>
  \<^verbatim>\<open>resp.Body\<close> is a stream. It is represented by the bytes it delivers and the way it
  ends: with \<^verbatim>\<open>io.EOF\<close>, or with a read error (a reset connection, a timeout while the
  body is read) after the bytes delivered so far. How the bytes are cut into reads makes
  no difference to \<^verbatim>\<open>io.ReadAll\<close> or to the JSON decoder, which both append every read
  to a buffer. \<^verbatim>\<open>ReadAll\<close> returns the data it has read together with the error, if
  any; \<^verbatim>\<open>io.EOF\<close> is not reported as an error.
\<close>

datatype body_end = EOF | ReadError string

record Body =
  delivered :: string
  ending :: body_end

definition ReadAll :: "Body \<Rightarrow> string \<times> string option" where
  "ReadAll b = (delivered b, case ending b of EOF \<Rightarrow> None | ReadError e \<Rightarrow> Some e)"

section \<open>The data model of \<^verbatim>\<open>client.go\<close>\<close>

text \<open>
  \<^verbatim>\<open>Client\<close>: the API key, the base URL and the timeout of its HTTP client. The timeout is
  a duration in nanoseconds. What the HTTP client does with a request is the
  \<open>World\<close> below.
\<close>

record Client =
  apiKey :: string
  baseURL :: string
  Timeout :: int

text \<open>The nested \<^verbatim>\<open>Source\<close> struct of an article, the article and the response.\<close>

record Source =
  Name :: string
  URL :: string

record Article =
  Title :: string
  Description :: string
  Category :: string
  Content :: string
  Country :: string
  Region :: string
  Lang :: string
  Sentiment :: string
  URL :: string
  Image :: string
  PublishedAt :: Time
  Source :: Source

record SearchResponse =
  TotalArticles :: int
  CurrentPage :: int
  NextPage :: "int option"
  Articles :: "Article list"

text \<open>
  \<^verbatim>\<open>StartDate\<close> and \<^verbatim>\<open>EndDate\<close> are \<^verbatim>\<open>interface{}\<close>: the nil interface, a \<^verbatim>\<open>string\<close>,
  a \<^verbatim>\<open>time.Time\<close>, or a value of any other dynamic type. The type switch looks at the
  dynamic type only, so a value of another type is represented by the name of its type
  (\<^verbatim>\<open>int\<close>, \<^verbatim>\<open>*time.Time\<close>, \<^verbatim>\<open>[]byte\<close>, a named string type, ...); a typed nil pointer
  stored in the interface is such a value too, not the nil interface.
\<close>

datatype iface = INil | IString string | ITime Time | IOther string

record SearchOptions =
  Query :: string
  StartDate :: iface
  EndDate :: iface
  Content :: "bool option"
  Lang :: "string list"
  Country :: "string list"
  Region :: "string list"
  Category :: "string list"
  Max :: int
  Attributes :: "string list"
  Page :: int
  SortBy :: string
  Publisher :: "string list"
  Format :: string

text \<open>
  The errors of \<^verbatim>\<open>Decode\<close>: a syntax error of the scanner, \<^verbatim>\<open>io.EOF\<close>,
  \<^verbatim>\<open>io.ErrUnexpectedEOF\<close>, the error of a failed read, and the errors of storing the
  value into the Go variable (a type mismatch, a timestamp that does not parse), which
  are not told apart. Then the errors \<^verbatim>\<open>Search\<close> and \<^verbatim>\<open>Headlines\<close> return, one
  constructor per \<^verbatim>\<open>errors.New\<close> and \<^verbatim>\<open>fmt.Errorf\<close> of the source, carrying what the
  message is formatted from.
\<close>

datatype decode_error =
    SyntaxError
  | EOF_error
  | UnexpectedEOF
  | ReadFailed string
  | UnmarshalError

datatype error =
    StartDateTypeError
  | EndDateTypeError
  | CreatingRequest string
  | MakingRequest string
  | APIError int string
  | ParsingResponse decode_error

section \<open>\<^verbatim>\<open>encoding/json\<close>: \<^verbatim>\<open>json.NewDecoder(r).Decode(&v)\<close>\<close>

text \<open>
  \<^verbatim>\<open>Decode\<close> works in two stages. It first reads the first JSON value of the stream, with
  a state machine over the bytes and a stack of the open arrays and objects, and stops
  where that value is complete; nothing after the value is looked at. The value is then
  stored into the Go variable field by field. The scanner below is that state machine,
  one function per state; on its way it builds the value it has read. A string is kept
  as the raw bytes between its quotes, a number as its literal.

  A top-level value is complete where the decoder of Go 1.27 takes it to be: an array
  or object at its closing bracket, a string at its closing quote, a literal at its last
  letter, and a number, which does not say where it ends, at the first byte that cannot
  continue it or at the end of the input. (The scanner of the earlier releases also
  waited for the byte after a top-level string or literal, so that a read error right
  after such a value was returned in place of the value; on every other body the two
  agree.)
\<close>

datatype json =
    JNull
  | JBool bool
  | JNumber string
  | JString string
  | JArray "json list"
  | JObject "(string \<times> json) list"

datatype frame =
    InArray "json list"
  | InObject "(string \<times> json) list"
  | AfterKey "(string \<times> json) list" string

datatype numstate = NNeg | N0 | N1 | NDot | NDot0 | NE | NESign | NE0

datatype mode =
    BeginValue
  | BeginValueOrEmpty
  | BeginStringOrEmpty
  | BeginString
  | InString string
  | InStringEsc string
  | InStringEscU nat string
  | InNumber numstate string
  | InLiteral json string
  | EndValue

datatype scanner = Scanning "frame list" mode | Finished json | Failed

text \<open>The double quote and the backslash, by their codes.\<close>

definition quote :: char where "quote = CHR 0x22"
definition backslash :: char where "backslash = CHR 0x5C"

definition isSpace :: "char \<Rightarrow> bool" where
  "isSpace c \<longleftrightarrow> c = CHR '' '' \<or> c = CHR 0x09 \<or> c = CHR 0x0D \<or> c = CHR 0x0A"

definition isDigit :: "char \<Rightarrow> bool" where
  "isDigit c \<longleftrightarrow> CHR ''0'' \<le> c \<and> c \<le> CHR ''9''"

definition isHex :: "char \<Rightarrow> bool" where
  "isHex c \<longleftrightarrow> isDigit c \<or> (CHR ''a'' \<le> c \<and> c \<le> CHR ''f'') \<or> (CHR ''A'' \<le> c \<and> c \<le> CHR ''F'')"

definition maxNestingDepth :: nat where "maxNestingDepth = 10000"

text \<open>
  A complete value arrives below the stack \<open>st\<close>. With nothing open the value is the
  top-level one, and the scan ends. Inside an array the value is appended; after a key
  it completes the member.
\<close>

fun deliver :: "json \<Rightarrow> frame list \<Rightarrow> scanner" where
  "deliver v [] = Finished v"
| "deliver v (InArray xs # st) = Scanning (InArray (xs @ [v]) # st) EndValue"
| "deliver v (AfterKey ms k # st) = Scanning (InObject (ms @ [(k, v)]) # st) EndValue"
| "deliver v (InObject ms # st) = Failed"

text \<open>After a value inside an array or object, or after an object key.\<close>

definition end_value :: "frame list \<Rightarrow> char \<Rightarrow> scanner" where
  "end_value st c =
     (case st of
        [] \<Rightarrow> Failed
      | f # st' \<Rightarrow>
          if isSpace c then Scanning st EndValue
          else (case f of
                  AfterKey ms k \<Rightarrow> if c = CHR '':'' then Scanning st BeginValue else Failed
                | InObject ms \<Rightarrow>
                    if c = CHR '','' then Scanning st BeginString
                    else if c = CHR ''}'' then deliver (JObject ms) st'
                    else Failed
                | InArray xs \<Rightarrow>
                    if c = CHR '','' then Scanning st BeginValue
                    else if c = CHR '']'' then deliver (JArray xs) st'
                    else Failed))"

text \<open>
  A number ends at the first byte that cannot continue it; that byte is then read in
  the state after the value. At top level any such byte completes the scan, and the
  byte is not part of the value.
\<close>

definition finish_number :: "string \<Rightarrow> frame list \<Rightarrow> char \<Rightarrow> scanner" where
  "finish_number lit st c =
     (case st of [] \<Rightarrow> Finished (JNumber lit)
      | _ \<Rightarrow> (case deliver (JNumber lit) st of
                 Scanning st' m \<Rightarrow> end_value st' c
               | s \<Rightarrow> s))"

text \<open>The start of a value; opening an array or object beyond 10000 levels is an error.\<close>

definition begin_value :: "frame list \<Rightarrow> char \<Rightarrow> scanner" where
  "begin_value st c =
     (if isSpace c then Scanning st BeginValue
      else if c = CHR ''{'' then
        (if length st < maxNestingDepth then Scanning (InObject [] # st) BeginStringOrEmpty
         else Failed)
      else if c = CHR ''['' then
        (if length st < maxNestingDepth then Scanning (InArray [] # st) BeginValueOrEmpty
         else Failed)
      else if c = quote then Scanning st (InString [])
      else if c = CHR ''-'' then Scanning st (InNumber NNeg [c])
      else if c = CHR ''0'' then Scanning st (InNumber N0 [c])
      else if c = CHR ''t'' then Scanning st (InLiteral (JBool True) ''rue'')
      else if c = CHR ''f'' then Scanning st (InLiteral (JBool False) ''alse'')
      else if c = CHR ''n'' then Scanning st (InLiteral JNull ''ull'')
      else if CHR ''1'' \<le> c \<and> c \<le> CHR ''9'' then Scanning st (InNumber N1 [c])
      else Failed)"

text \<open>The closing quote: the string is an object key where a key is due, a value otherwise.\<close>

definition end_string :: "string \<Rightarrow> frame list \<Rightarrow> scanner" where
  "end_string raw st =
     (case st of
        InObject ms # st' \<Rightarrow> Scanning (AfterKey ms raw # st') EndValue
      | _ \<Rightarrow> deliver (JString raw) st)"

definition after_int :: "string \<Rightarrow> frame list \<Rightarrow> char \<Rightarrow> scanner" where
  "after_int lit st c =
     (if c = CHR ''.'' then Scanning st (InNumber NDot (lit @ [c]))
      else if c = CHR ''e'' \<or> c = CHR ''E'' then Scanning st (InNumber NE (lit @ [c]))
      else finish_number lit st c)"

definition after_exp_sign :: "string \<Rightarrow> frame list \<Rightarrow> char \<Rightarrow> scanner" where
  "after_exp_sign lit st c =
     (if isDigit c then Scanning st (InNumber NE0 (lit @ [c])) else Failed)"

fun number_step :: "numstate \<Rightarrow> string \<Rightarrow> frame list \<Rightarrow> char \<Rightarrow> scanner" where
  "number_step NNeg lit st c =
     (if c = CHR ''0'' then Scanning st (InNumber N0 (lit @ [c]))
      else if CHR ''1'' \<le> c \<and> c \<le> CHR ''9'' then Scanning st (InNumber N1 (lit @ [c]))
      else Failed)"
| "number_step N1 lit st c =
     (if isDigit c then Scanning st (InNumber N1 (lit @ [c]))
      else after_int lit st c)"
| "number_step N0 lit st c = after_int lit st c"
| "number_step NDot lit st c =
     (if isDigit c then Scanning st (InNumber NDot0 (lit @ [c])) else Failed)"
| "number_step NDot0 lit st c =
     (if isDigit c then Scanning st (InNumber NDot0 (lit @ [c]))
      else if c = CHR ''e'' \<or> c = CHR ''E'' then Scanning st (InNumber NE (lit @ [c]))
      else finish_number lit st c)"
| "number_step NE lit st c =
     (if c = CHR ''+'' \<or> c = CHR ''-'' then Scanning st (InNumber NESign (lit @ [c]))
      else after_exp_sign lit st c)"
| "number_step NESign lit st c = after_exp_sign lit st c"
| "number_step NE0 lit st c =
     (if isDigit c then Scanning st (InNumber NE0 (lit @ [c]))
      else finish_number lit st c)"

definition begin_string :: "frame list \<Rightarrow> char \<Rightarrow> scanner" where
  "begin_string st c =
     (if isSpace c then Scanning st BeginString
      else if c = quote then Scanning st (InString [])
      else Failed)"

fun mode_step :: "mode \<Rightarrow> frame list \<Rightarrow> char \<Rightarrow> scanner" where
  "mode_step BeginValue st c = begin_value st c"
| "mode_step BeginValueOrEmpty st c =
     (if isSpace c then Scanning st BeginValueOrEmpty
      else if c = CHR '']'' then end_value st c
      else begin_value st c)"
| "mode_step BeginStringOrEmpty st c =
     (if isSpace c then Scanning st BeginStringOrEmpty
      else if c = CHR ''}'' then end_value st c
      else begin_string st c)"
| "mode_step BeginString st c = begin_string st c"
| "mode_step (InString raw) st c =
     (if c = quote then end_string raw st
      else if c = backslash then Scanning st (InStringEsc (raw @ [c]))
      else if c < CHR 0x20 then Failed
      else Scanning st (InString (raw @ [c])))"
| "mode_step (InStringEsc raw) st c =
     (if c \<in> set ''bfnrt/'' \<or> c = backslash \<or> c = quote then Scanning st (InString (raw @ [c]))
      else if c = CHR ''u'' then Scanning st (InStringEscU 4 (raw @ [c]))
      else Failed)"
| "mode_step (InStringEscU n raw) st c =
     (if isHex c then
        (if n \<le> 1 then Scanning st (InString (raw @ [c]))
         else Scanning st (InStringEscU (n - 1) (raw @ [c])))
      else Failed)"
| "mode_step (InNumber ns lit) st c = number_step ns lit st c"
| "mode_step (InLiteral v rest) st c =
     (case rest of
        [] \<Rightarrow> Failed
      | e # es \<Rightarrow>
          if c \<noteq> e then Failed
          else if es = [] then deliver v st
          else Scanning st (InLiteral v es))"
| "mode_step EndValue st c = end_value st c"

fun step :: "scanner \<Rightarrow> char \<Rightarrow> scanner" where
  "step (Scanning st m) c = mode_step m st c"
| "step (Finished v) c = Finished v"
| "step Failed c = Failed"

definition scan :: "string \<Rightarrow> scanner" where
  "scan s = foldl step (Scanning [] BeginValue) s"

text \<open>
  \<^verbatim>\<open>readValue\<close>: the scan of the bytes delivered. If they run out before the value is
  complete, a read error is returned as it is; at \<^verbatim>\<open>io.EOF\<close> a top-level number that can
  end where the input ends is complete (the end of the input is read as a space would
  be), and otherwise the error is \<^verbatim>\<open>io.ErrUnexpectedEOF\<close>, or \<^verbatim>\<open>io.EOF\<close> for a body of
  white space only.
\<close>

definition nonSpace :: "string \<Rightarrow> bool" where
  "nonSpace s \<longleftrightarrow> (\<exists>c \<in> set s. \<not> isSpace c)"

definition readValue :: "Body \<Rightarrow> decode_error + json" where
  "readValue b =
     (case scan (delivered b) of
        Finished v \<Rightarrow> Inr v
      | Failed \<Rightarrow> Inl SyntaxError
      | Scanning st m \<Rightarrow>
          (case ending b of
             ReadError e \<Rightarrow> Inl (ReadFailed e)
           | EOF \<Rightarrow>
               (case step (Scanning st m) CHR '' '' of
                  Finished v \<Rightarrow> Inr v
                | _ \<Rightarrow> if nonSpace (delivered b) then Inl UnexpectedEOF else Inl EOF_error)))"

text \<open>
  \<^verbatim>\<open>json.Valid\<close> and \<^verbatim>\<open>json.Unmarshal\<close>: the whole text is one JSON value, with nothing
  but white space around it. It is the same scanner, except that a byte other than
  white space after the top-level value is an error: the byte that ends a top-level
  number, and every byte after the value. The client calls neither; they say when a
  text is valid JSON as a whole, and \<^verbatim>\<open>whole_value\<close> is the value of such a text.
\<close>

definition is_number :: "mode \<Rightarrow> bool" where
  "is_number m = (case m of InNumber ns lit \<Rightarrow> True | _ \<Rightarrow> False)"

fun valid_step :: "scanner \<Rightarrow> char \<Rightarrow> scanner" where
  "valid_step (Scanning st m) c =
     (case step (Scanning st m) c of
        Finished v \<Rightarrow> if st = [] \<and> is_number m \<and> \<not> isSpace c then Failed else Finished v
      | s \<Rightarrow> s)"
| "valid_step (Finished v) c = (if isSpace c then Finished v else Failed)"
| "valid_step Failed c = Failed"

definition whole_value :: "string \<Rightarrow> json option" where
  "whole_value data =
     (case valid_step (foldl valid_step (Scanning [] BeginValue) data) CHR '' '' of
        Finished v \<Rightarrow> Some v
      | _ \<Rightarrow> None)"

definition Valid :: "string \<Rightarrow> bool" where
  "Valid data \<longleftrightarrow> whole_value data \<noteq> None"

text \<open>
  An invariant of the scanner: the letters a literal still expects hold no space, so
  that the end of the input completes no literal.
\<close>

definition literal_ok :: "mode \<Rightarrow> bool" where
  "literal_ok m = (case m of InLiteral v rest \<Rightarrow> CHR '' '' \<notin> set rest | _ \<Rightarrow> True)"

subsection \<open>Strings: \<^verbatim>\<open>unquote\<close>\<close>

text \<open>
  \<^verbatim>\<open>unquote\<close> turns the raw bytes of a string into its value: escapes are replaced,
  \<^verbatim>\<open>\uXXXX\<close> by the UTF-8 encoding of the code point (a surrogate pair by the one code
  point it encodes, a lone surrogate by U+FFFD), and every byte that does not start a
  valid UTF-8 sequence by U+FFFD. The branches that return the empty string are the
  malformed escapes, which the scanner has already refused.
\<close>

definition hexval :: "char \<Rightarrow> int" where
  "hexval c =
     (if isDigit c then of_char c - 48
      else if CHR ''a'' \<le> c \<and> c \<le> CHR ''f'' then of_char c - 87
      else of_char c - 55)"

definition getu4 :: "string \<Rightarrow> int option" where
  "getu4 s =
     (case s of
        b # u # h1 # h2 # h3 # h4 # rest \<Rightarrow>
          if b = backslash \<and> u = CHR ''u'' \<and> isHex h1 \<and> isHex h2 \<and> isHex h3 \<and> isHex h4
          then Some (((hexval h1 * 16 + hexval h2) * 16 + hexval h3) * 16 + hexval h4)
          else None
      | _ \<Rightarrow> None)"

definition RuneError :: int where "RuneError = 0xFFFD"

definition isSurrogate :: "int \<Rightarrow> bool" where
  "isSurrogate r \<longleftrightarrow> 0xD800 \<le> r \<and> r < 0xE000"

definition EncodeRune :: "int \<Rightarrow> string" where
  "EncodeRune r =
     (if r < 0x80 then [char_of r]
      else if r < 0x800 then [char_of (0xC0 + r div 64), char_of (0x80 + r mod 64)]
      else if isSurrogate r \<or> 0x10FFFF < r then [CHR 0xEF, CHR 0xBF, CHR 0xBD]
      else if r < 0x10000 then
        [char_of (0xE0 + r div 4096), char_of (0x80 + r div 64 mod 64), char_of (0x80 + r mod 64)]
      else
        [char_of (0xF0 + r div 262144), char_of (0x80 + r div 4096 mod 64),
         char_of (0x80 + r div 64 mod 64), char_of (0x80 + r mod 64)])"

definition utf16_DecodeRune :: "int \<Rightarrow> int option \<Rightarrow> int" where
  "utf16_DecodeRune r1 r2 =
     (case r2 of
        None \<Rightarrow> RuneError
      | Some r2 \<Rightarrow>
          if 0xD800 \<le> r1 \<and> r1 < 0xDC00 \<and> 0xDC00 \<le> r2 \<and> r2 < 0xE000
          then (r1 - 0xD800) * 1024 + (r2 - 0xDC00) + 0x10000
          else RuneError)"

definition cont :: "int \<Rightarrow> int \<Rightarrow> char \<Rightarrow> bool" where
  "cont lo hi c \<longleftrightarrow> lo \<le> of_char c \<and> of_char c \<le> hi"

definition rune_length :: "string \<Rightarrow> nat" where
  "rune_length s =
     (case s of
        [] \<Rightarrow> 0
      | c # cs \<Rightarrow>
          let b = (of_char c :: int);
              lo = (if b = 0xE0 then 0xA0 else if b = 0xF0 then 0x90 else 0x80);
              hi = (if b = 0xED then 0x9F else if b = 0xF4 then 0x8F else 0xBF)
          in if 0xC2 \<le> b \<and> b \<le> 0xDF then
               (case cs of c1 # _ \<Rightarrow> if cont lo hi c1 then 2 else 0 | _ \<Rightarrow> 0)
             else if 0xE0 \<le> b \<and> b \<le> 0xEF then
               (case cs of c1 # c2 # _ \<Rightarrow>
                  if cont lo hi c1 \<and> cont 0x80 0xBF c2 then 3 else 0 | _ \<Rightarrow> 0)
             else if 0xF0 \<le> b \<and> b \<le> 0xF4 then
               (case cs of c1 # c2 # c3 # _ \<Rightarrow>
                  if cont lo hi c1 \<and> cont 0x80 0xBF c2 \<and> cont 0x80 0xBF c3 then 4 else 0
                | _ \<Rightarrow> 0)
             else 0)"

definition unescape :: "char \<Rightarrow> char" where
  "unescape e =
     (if e = CHR ''b'' then CHR 0x08 else if e = CHR ''f'' then CHR 0x0C
      else if e = CHR ''n'' then CHR 0x0A else if e = CHR ''r'' then CHR 0x0D
      else if e = CHR ''t'' then CHR 0x09 else e)"

function unquote :: "string \<Rightarrow> string" where
  "unquote [] = []"
| "unquote (c # cs) =
     (if c = backslash then
        (case cs of
           [] \<Rightarrow> []
         | e # rest \<Rightarrow>
             if e = CHR ''u'' then
               (case getu4 (c # cs) of
                  None \<Rightarrow> []
                | Some rr \<Rightarrow>
                    if isSurrogate rr then
                      (let dec = utf16_DecodeRune rr (getu4 (drop 4 rest)) in
                       if dec \<noteq> RuneError then EncodeRune dec @ unquote (drop 10 rest)
                       else EncodeRune RuneError @ unquote (drop 4 rest))
                    else EncodeRune rr @ unquote (drop 4 rest))
             else unescape e # unquote rest)
      else if (of_char c :: int) < 0x80 then c # unquote cs
      else (let n = rune_length (c # cs) in
            if n = 0 then EncodeRune RuneError @ unquote cs
            else c # take (n - 1) cs @ unquote (drop (n - 1) cs)))"
  by pat_completeness auto
termination
  by (relation "measure length") auto

subsection \<open>Field names\<close>

text \<open>
  An object key selects the struct field whose JSON name it equals, or equals up to
  case. Case folding maps ASCII letters to upper case and two more characters to ASCII
  letters: U+017F (long s, bytes C5 BF) to S and U+212A (Kelvin sign, bytes E2 84 AA)
  to K. No other non-ASCII character folds to an ASCII one, so other bytes are left as
  they are; the names compared against are all ASCII. Within each struct of the client
  the folded names differ, so a key selects at most one field.
\<close>

definition toUpper :: "char \<Rightarrow> char" where
  "toUpper c = (if CHR ''a'' \<le> c \<and> c \<le> CHR ''z'' then char_of (of_char c - (32::int)) else c)"

fun foldName :: "string \<Rightarrow> string" where
  "foldName (c # d # e # cs) =
     (if c = CHR 0xC5 \<and> d = CHR 0xBF then CHR ''S'' # foldName (e # cs)
      else if c = CHR 0xE2 \<and> d = CHR 0x84 \<and> e = CHR 0xAA then CHR ''K'' # foldName cs
      else toUpper c # foldName (d # e # cs))"
| "foldName [c, d] =
     (if c = CHR 0xC5 \<and> d = CHR 0xBF then ''S'' else toUpper c # foldName [d])"
| "foldName [c] = [toUpper c]"
| "foldName [] = []"

definition is_field :: "string \<Rightarrow> string \<Rightarrow> bool" where
  "is_field name key \<longleftrightarrow> foldName (unquote key) = foldName name"

subsection \<open>Numbers\<close>

text \<open>
  \<^verbatim>\<open>strconv.ParseInt(s, 10, 64)\<close>: a sign and decimal digits, within 64 bits (Go's
  \<^verbatim>\<open>int\<close> on the 64-bit platforms). A JSON number with a fraction or an exponent is
  not an integer literal.
\<close>

definition digits_value :: "string \<Rightarrow> int" where
  "digits_value ds = foldl (\<lambda>a c. 10 * a + (of_char c - 48)) 0 ds"

definition ParseInt :: "string \<Rightarrow> int option" where
  "ParseInt s =
     (let neg = (case s of c # _ \<Rightarrow> c = CHR ''-'' | [] \<Rightarrow> False);
          ds = (case s of c # r \<Rightarrow> if c = CHR ''-'' \<or> c = CHR ''+'' then r else s | [] \<Rightarrow> [])
      in if ds = [] \<or> \<not> list_all isDigit ds then None
         else let n = (if neg then - digits_value ds else digits_value ds)
              in if - (2 ^ 63) \<le> n \<and> n < 2 ^ 63 then Some n else None)"

subsection \<open>Storing a JSON value into the Go types\<close>

text \<open>
  Each \<open>store\<close> function takes the JSON value and the current value of the variable and
  returns the new value, or \<open>None\<close> where \<^verbatim>\<open>Decode\<close> returns an error (a JSON value of
  the wrong kind, a number that is no 64-bit integer, a timestamp that does not
  parse). JSON \<^verbatim>\<open>null\<close> leaves a non-pointer variable as it is and sets a pointer or
  slice to nil. A struct is filled member by member in the order of the object, into
  the current value, so a repeated key stores twice; an unknown key is skipped.
  \<^verbatim>\<open>time.Time\<close> decodes itself from the raw bytes of the string; its parser is a
  parameter (\<open>parse\<close>).
\<close>

definition zero_Time :: Time where
  "zero_Time = \<lparr>Year = 1, Month = 1, Day = 1, Hour = 0, Minute = 0, Second = 0, ZoneOffset = 0\<rparr>"

definition zero_Source :: Source where
  "zero_Source = \<lparr>Name = [], URL = []\<rparr>"

definition zero_Article :: Article where
  "zero_Article =
     \<lparr>Title = [], Description = [], Category = [], Content = [], Country = [], Region = [],
      Lang = [], Sentiment = [], URL = [], Image = [], PublishedAt = zero_Time,
      Source = zero_Source\<rparr>"

definition zero_SearchResponse :: SearchResponse where
  "zero_SearchResponse = \<lparr>TotalArticles = 0, CurrentPage = 0, NextPage = None, Articles = []\<rparr>"

definition store_string :: "json \<Rightarrow> string \<Rightarrow> string option" where
  "store_string j cur =
     (case j of JNull \<Rightarrow> Some cur | JString raw \<Rightarrow> Some (unquote raw) | _ \<Rightarrow> None)"

definition store_int :: "json \<Rightarrow> int \<Rightarrow> int option" where
  "store_int j cur = (case j of JNull \<Rightarrow> Some cur | JNumber lit \<Rightarrow> ParseInt lit | _ \<Rightarrow> None)"

definition store_int_ptr :: "json \<Rightarrow> int option \<Rightarrow> int option option" where
  "store_int_ptr j cur =
     (case j of
        JNull \<Rightarrow> Some None
      | JNumber lit \<Rightarrow> map_option Some (ParseInt lit)
      | _ \<Rightarrow> None)"

definition store_Time :: "(string \<Rightarrow> Time option) \<Rightarrow> json \<Rightarrow> Time \<Rightarrow> Time option" where
  "store_Time parse j cur =
     (case j of JNull \<Rightarrow> Some cur | JString raw \<Rightarrow> parse raw | _ \<Rightarrow> None)"

fun members :: "('a \<Rightarrow> string \<Rightarrow> json \<Rightarrow> 'a option) \<Rightarrow> 'a \<Rightarrow> (string \<times> json) list \<Rightarrow> 'a option" where
  "members f a [] = Some a"
| "members f a ((key, v) # kvs) =
     (case f a key v of None \<Rightarrow> None | Some a' \<Rightarrow> members f a' kvs)"

definition Source_member :: "Source \<Rightarrow> string \<Rightarrow> json \<Rightarrow> Source option" where
  "Source_member s key v =
     (if is_field ''name'' key then
        map_option (\<lambda>x. s\<lparr>Name := x\<rparr>) (store_string v (Name s))
      else if is_field ''url'' key then
        map_option (\<lambda>x. s\<lparr>Source.URL := x\<rparr>) (store_string v (Source.URL s))
      else Some s)"

definition store_Source :: "json \<Rightarrow> Source \<Rightarrow> Source option" where
  "store_Source j cur =
     (case j of JNull \<Rightarrow> Some cur | JObject ms \<Rightarrow> members Source_member cur ms | _ \<Rightarrow> None)"

definition Article_member ::
  "(string \<Rightarrow> Time option) \<Rightarrow> Article \<Rightarrow> string \<Rightarrow> json \<Rightarrow> Article option" where
  "Article_member parse a key v =
     (if is_field ''title'' key then
        map_option (\<lambda>x. a\<lparr>Title := x\<rparr>) (store_string v (Title a))
      else if is_field ''description'' key then
        map_option (\<lambda>x. a\<lparr>Description := x\<rparr>) (store_string v (Description a))
      else if is_field ''category'' key then
        map_option (\<lambda>x. a\<lparr>Article.Category := x\<rparr>) (store_string v (Article.Category a))
      else if is_field ''content'' key then
        map_option (\<lambda>x. a\<lparr>Article.Content := x\<rparr>) (store_string v (Article.Content a))
      else if is_field ''country'' key then
        map_option (\<lambda>x. a\<lparr>Article.Country := x\<rparr>) (store_string v (Article.Country a))
      else if is_field ''region'' key then
        map_option (\<lambda>x. a\<lparr>Article.Region := x\<rparr>) (store_string v (Article.Region a))
      else if is_field ''lang'' key then
        map_option (\<lambda>x. a\<lparr>Article.Lang := x\<rparr>) (store_string v (Article.Lang a))
      else if is_field ''sentiment'' key then
        map_option (\<lambda>x. a\<lparr>Sentiment := x\<rparr>) (store_string v (Sentiment a))
      else if is_field ''url'' key then
        map_option (\<lambda>x. a\<lparr>Article.URL := x\<rparr>) (store_string v (Article.URL a))
      else if is_field ''image'' key then
        map_option (\<lambda>x. a\<lparr>Image := x\<rparr>) (store_string v (Image a))
      else if is_field ''publishedAt'' key then
        map_option (\<lambda>x. a\<lparr>PublishedAt := x\<rparr>) (store_Time parse v (PublishedAt a))
      else if is_field ''source'' key then
        map_option (\<lambda>x. a\<lparr>Source := x\<rparr>) (store_Source v (Source a))
      else Some a)"

definition store_Article :: "(string \<Rightarrow> Time option) \<Rightarrow> json \<Rightarrow> Article \<Rightarrow> Article option" where
  "store_Article parse j cur =
     (case j of
        JNull \<Rightarrow> Some cur
      | JObject ms \<Rightarrow> members (Article_member parse) cur ms
      | _ \<Rightarrow> None)"

text \<open>
  An array is stored into a slice element by element, each into the element the
  slice's backing array holds at that index (a zero value beyond it); the slice is
  then cut to the number of elements read. The elements of the backing array beyond
  the slice's length are carried along as the second component.
\<close>

fun store_elements ::
  "(string \<Rightarrow> Time option) \<Rightarrow> json list \<Rightarrow> Article list \<Rightarrow> Article list option" where
  "store_elements parse [] backing = Some []"
| "store_elements parse (x # xs) backing =
     (case store_Article parse x (case backing of [] \<Rightarrow> zero_Article | a # _ \<Rightarrow> a) of
        None \<Rightarrow> None
      | Some a' \<Rightarrow>
          map_option ((#) a')
            (store_elements parse xs (case backing of [] \<Rightarrow> [] | _ # rest \<Rightarrow> rest)))"

definition store_Articles ::
  "(string \<Rightarrow> Time option) \<Rightarrow> json \<Rightarrow> Article list \<times> Article list
     \<Rightarrow> (Article list \<times> Article list) option" where
  "store_Articles parse j cur =
     (let backing = fst cur @ snd cur in
      case j of
        JNull \<Rightarrow> Some ([], [])
      | JArray xs \<Rightarrow>
          if xs = [] then Some ([], [])
          else map_option (\<lambda>ys. (ys, drop (length xs) backing)) (store_elements parse xs backing)
      | _ \<Rightarrow> None)"

definition SearchResponse_member ::
  "(string \<Rightarrow> Time option) \<Rightarrow> SearchResponse \<times> Article list \<Rightarrow> string \<Rightarrow> json
     \<Rightarrow> (SearchResponse \<times> Article list) option" where
  "SearchResponse_member parse cur key v =
     (let r = fst cur; spare = snd cur in
      if is_field ''totalArticles'' key then
        map_option (\<lambda>x. (r\<lparr>TotalArticles := x\<rparr>, spare)) (store_int v (TotalArticles r))
      else if is_field ''currentPage'' key then
        map_option (\<lambda>x. (r\<lparr>CurrentPage := x\<rparr>, spare)) (store_int v (CurrentPage r))
      else if is_field ''nextPage'' key then
        map_option (\<lambda>x. (r\<lparr>NextPage := x\<rparr>, spare)) (store_int_ptr v (NextPage r))
      else if is_field ''articles'' key then
        map_option (\<lambda>x. (r\<lparr>Articles := fst x\<rparr>, snd x))
          (store_Articles parse v (Articles r, spare))
      else Some cur)"

definition unmarshal :: "(string \<Rightarrow> Time option) \<Rightarrow> json \<Rightarrow> SearchResponse option" where
  "unmarshal parse j =
     (case j of
        JNull \<Rightarrow> Some zero_SearchResponse
      | JObject ms \<Rightarrow>
          map_option fst (members (SearchResponse_member parse) (zero_SearchResponse, []) ms)
      | _ \<Rightarrow> None)"

definition Decode :: "(string \<Rightarrow> Time option) \<Rightarrow> Body \<Rightarrow> decode_error + SearchResponse" where
  "Decode parse b =
     (case readValue b of
        Inl e \<Rightarrow> Inl e
      | Inr j \<Rightarrow> (case unmarshal parse j of None \<Rightarrow> Inl UnmarshalError | Some r \<Rightarrow> Inr r))"

text \<open>
  \<^verbatim>\<open>json.Unmarshal(data, &searchResponse)\<close> of a whole text into a zero
  \<^verbatim>\<open>SearchResponse\<close>: the text must be valid JSON as a whole, and its value must fit the
  Go type. The client does not call it; it says when a text is valid JSON for the
  \<^verbatim>\<open>SearchResponse\<close> shape.
\<close>

definition Unmarshal :: "(string \<Rightarrow> Time option) \<Rightarrow> string \<Rightarrow> SearchResponse option" where
  "Unmarshal parse data =
     (case whole_value data of None \<Rightarrow> None | Some j \<Rightarrow> unmarshal parse j)"

section \<open>Building the query parameters\<close>

text \<open>
  Lines 108 to 191 of \<^verbatim>\<open>Search\<close>: the API key first, then each option that is set,
  in the order of the source; the type switch on a date returns the error at once.
\<close>

definition Search_params :: "Client \<Rightarrow> SearchOptions option \<Rightarrow> error + Values" where
  "Search_params c options =
     (let params = Add [] ''apikey'' (apiKey c) in
      case options of
        None \<Rightarrow> Inr params
      | Some opts \<Rightarrow>
          let params = (if Query opts \<noteq> [] then Add params ''q'' (Query opts) else params) in
         (case (case StartDate opts of
                  INil \<Rightarrow> Inr params
                | IString v \<Rightarrow> Inr (Add params ''startDate'' v)
                | ITime v \<Rightarrow> Inr (Add params ''startDate'' (Format_RFC3339 v))
                | IOther ty \<Rightarrow> Inl StartDateTypeError) of
            Inl e \<Rightarrow> Inl e
          | Inr params \<Rightarrow>
         (case (case EndDate opts of
                  INil \<Rightarrow> Inr params
                | IString v \<Rightarrow> Inr (Add params ''endDate'' v)
                | ITime v \<Rightarrow> Inr (Add params ''endDate'' (Format_RFC3339 v))
                | IOther ty \<Rightarrow> Inl EndDateTypeError) of
            Inl e \<Rightarrow> Inl e
          | Inr params \<Rightarrow>
         (let params = (case Content opts of
                          None \<Rightarrow> params
                        | Some b \<Rightarrow> if b then Add params ''content'' ''true''
                                    else Add params ''content'' ''false'');
              params = (if length (Lang opts) > 0
                        then Add params ''lang'' (Join (Lang opts) '','') else params);
              params = (if length (Country opts) > 0
                        then Add params ''country'' (Join (Country opts) '','') else params);
              params = (if length (Region opts) > 0
                        then Add params ''region'' (Join (Region opts) '','') else params);
              params = (if length (Category opts) > 0
                        then Add params ''category'' (Join (Category opts) '','') else params);
              params = (if length (Attributes opts) > 0
                        then Add params ''attributes'' (Join (Attributes opts) '','') else params);
              params = (if length (Publisher opts) > 0
                        then Add params ''publisher'' (Join (Publisher opts) '','') else params);
              params = (if Max opts > 0
                        then Add params ''max'' (Sprintf_d (Max opts)) else params);
              params = (if Page opts > 0
                        then Add params ''page'' (Sprintf_d (Page opts)) else params);
              params = (if SortBy opts \<noteq> [] then Add params ''sortby'' (SortBy opts) else params);
              params = (if Format opts \<noteq> [] then Add params ''format'' (Format opts) else params)
          in Inr params))))"

text \<open>Lines 226 to 309 of \<^verbatim>\<open>Headlines\<close>, transcribed on their own.\<close>

definition Headlines_params :: "Client \<Rightarrow> SearchOptions option \<Rightarrow> error + Values" where
  "Headlines_params c options =
     (let params = Add [] ''apikey'' (apiKey c) in
      case options of
        None \<Rightarrow> Inr params
      | Some opts \<Rightarrow>
          let params = (if Query opts \<noteq> [] then Add params ''q'' (Query opts) else params) in
         (case (case StartDate opts of
                  INil \<Rightarrow> Inr params
                | IString v \<Rightarrow> Inr (Add params ''startDate'' v)
                | ITime v \<Rightarrow> Inr (Add params ''startDate'' (Format_RFC3339 v))
                | IOther ty \<Rightarrow> Inl StartDateTypeError) of
            Inl e \<Rightarrow> Inl e
          | Inr params \<Rightarrow>
         (case (case EndDate opts of
                  INil \<Rightarrow> Inr params
                | IString v \<Rightarrow> Inr (Add params ''endDate'' v)
                | ITime v \<Rightarrow> Inr (Add params ''endDate'' (Format_RFC3339 v))
                | IOther ty \<Rightarrow> Inl EndDateTypeError) of
            Inl e \<Rightarrow> Inl e
          | Inr params \<Rightarrow>
         (let params = (case Content opts of
                          None \<Rightarrow> params
                        | Some b \<Rightarrow> if b then Add params ''content'' ''true''
                                    else Add params ''content'' ''false'');
              params = (if length (Lang opts) > 0
                        then Add params ''lang'' (Join (Lang opts) '','') else params);
              params = (if length (Country opts) > 0
                        then Add params ''country'' (Join (Country opts) '','') else params);
              params = (if length (Region opts) > 0
                        then Add params ''region'' (Join (Region opts) '','') else params);
              params = (if length (Category opts) > 0
                        then Add params ''category'' (Join (Category opts) '','') else params);
              params = (if length (Attributes opts) > 0
                        then Add params ''attributes'' (Join (Attributes opts) '','') else params);
              params = (if length (Publisher opts) > 0
                        then Add params ''publisher'' (Join (Publisher opts) '','') else params);
              params = (if Max opts > 0
                        then Add params ''max'' (Sprintf_d (Max opts)) else params);
              params = (if Page opts > 0
                        then Add params ''page'' (Sprintf_d (Page opts)) else params);
              params = (if SortBy opts \<noteq> [] then Add params ''sortby'' (SortBy opts) else params);
              params = (if Format opts \<noteq> [] then Add params ''format'' (Format opts) else params)
          in Inr params))))"

section \<open>The HTTP exchange\<close>

text \<open>
  Everything outside the client: whether \<^verbatim>\<open>http.NewRequest\<close> accepts the URL (the
  error of \<^verbatim>\<open>url.Parse\<close>, if any), what \<^verbatim>\<open>httpClient.Do\<close> returns for a GET of a URL (a
  transport error or a response), the parser of \<^verbatim>\<open>time.Time\<close>'s JSON decoding, and the
  log of the requests sent so far. \<^verbatim>\<open>Do\<close> is the only operation that sends a
  request, and it appends the URL to the log. The deferred \<^verbatim>\<open>resp.Body.Close()\<close> has
  no part in what a call returns and is left out.
\<close>

record Response =
  StatusCode :: int
  Body :: Body

record World =
  url_error :: "string \<Rightarrow> string option"
  round_trip :: "string \<Rightarrow> string + Response"
  parse_time :: "string \<Rightarrow> Time option"
  requests :: "string list"

definition Do :: "World \<Rightarrow> string \<Rightarrow> (string + Response) \<times> World" where
  "Do w url = (round_trip w url, w\<lparr>requests := requests w @ [url]\<rparr>)"

text \<open>\<^verbatim>\<open>Search\<close>, lines 107 to 222.\<close>

definition Search ::
  "Client \<Rightarrow> SearchOptions option \<Rightarrow> World \<Rightarrow> (error + SearchResponse) \<times> World" where
  "Search c options w =
     (case Search_params c options of
        Inl e \<Rightarrow> (Inl e, w)
      | Inr params \<Rightarrow>
          let searchURL = baseURL c @ ''/v1/search?'' @ Encode params in
          (case url_error w searchURL of
             Some err \<Rightarrow> (Inl (CreatingRequest err), w)
           | None \<Rightarrow>
               let (result, w') = Do w searchURL in
               (case result of
                  Inl err \<Rightarrow> (Inl (MakingRequest err), w')
                | Inr resp \<Rightarrow>
                    if StatusCode resp \<noteq> 200 then
                      (let (body, read_err) = ReadAll (Body resp)
                       in (Inl (APIError (StatusCode resp) body), w'))
                    else
                      (case Decode (parse_time w) (Body resp) of
                         Inl err \<Rightarrow> (Inl (ParsingResponse err), w')
                       | Inr searchResponse \<Rightarrow> (Inr searchResponse, w')))))"

text \<open>\<^verbatim>\<open>Headlines\<close>, lines 225 to 340.\<close>

definition Headlines ::
  "Client \<Rightarrow> SearchOptions option \<Rightarrow> World \<Rightarrow> (error + SearchResponse) \<times> World" where
  "Headlines c options w =
     (case Headlines_params c options of
        Inl e \<Rightarrow> (Inl e, w)
      | Inr params \<Rightarrow>
          let headlinesURL = baseURL c @ ''/v1/headlines?'' @ Encode params in
          (case url_error w headlinesURL of
             Some err \<Rightarrow> (Inl (CreatingRequest err), w)
           | None \<Rightarrow>
               let (result, w') = Do w headlinesURL in
               (case result of
                  Inl err \<Rightarrow> (Inl (MakingRequest err), w')
                | Inr resp \<Rightarrow>
                    if StatusCode resp \<noteq> 200 then
                      (let (body, read_err) = ReadAll (Body resp)
                       in (Inl (APIError (StatusCode resp) body), w'))
                    else
                      (case Decode (parse_time w) (Body resp) of
                         Inl err \<Rightarrow> (Inl (ParsingResponse err), w')
                       | Inr searchResponse \<Rightarrow> (Inr searchResponse, w')))))"

text \<open>
  The text of an API error, \<^verbatim>\<open>fmt.Errorf("API error (status %d): %s", ...)\<close>, and the
  constructor of a client with its options.
\<close>

definition APIError_text :: "int \<Rightarrow> string \<Rightarrow> string" where
  "APIError_text status body = ''API error (status '' @ Sprintf_d status @ ''): '' @ body"

definition NewClient :: "string \<Rightarrow> (Client \<Rightarrow> Client) list \<Rightarrow> string + Client" where
  "NewClient key options =
     (if key = [] then Inl ''API key is required''
      else Inr (foldl (\<lambda>client option. option client)
                  \<lparr>apiKey = key, baseURL = ''https://api.allnewsapi.com'',
                   Timeout = 30 * 1000000000\<rparr>
                  options))"

definition WithBaseURL :: "string \<Rightarrow> Client \<Rightarrow> Client" where
  "WithBaseURL url c = c\<lparr>baseURL := url\<rparr>"

definition WithTimeout :: "int \<Rightarrow> Client \<Rightarrow> Client" where
  "WithTimeout timeout c = c\<lparr>Timeout := timeout\<rparr>"

section \<open>What the encoded query holds\<close>

text \<open>
  What a query string holds for a key, as \<^verbatim>\<open>ParseQuery\<close> reads it: the values of the
  key in order (the entry of the parsed map; empty for a query that does not parse),
  and the pieces of the query string that carry the key. The encoded query of a call
  is \<^verbatim>\<open>Encode\<close> of its parameters.
\<close>

definition query_values :: "string \<Rightarrow> string \<Rightarrow> string list" where
  "query_values query key =
     (case ParseQuery query of
        None \<Rightarrow> []
      | Some ps \<Rightarrow> map snd (filter (\<lambda>p. fst p = key) ps))"

definition query_segments :: "string \<Rightarrow> string \<Rightarrow> string list" where
  "query_segments query key =
     filter (\<lambda>p. map_option fst (parse_pair p) = Some key) (pieces query)"

definition encoded_values :: "Values \<Rightarrow> string \<Rightarrow> string list" where
  "encoded_values m key = query_values (Encode m) key"

definition encoded_segments :: "Values \<Rightarrow> string \<Rightarrow> string list" where
  "encoded_segments m key = query_segments (Encode m) key"

text \<open>
  The statement \<^verbatim>\<open>if cond { params.Add(key, value) }\<close> as a function of the parameters
  built so far, and the parameters of a call whose dates are not of a foreign type as one
  chain of such statements. \<open>Search_params_Some\<close> below proves that this chain is what
  \<open>Search_params\<close> computes.
\<close>

definition add_when :: "bool \<Rightarrow> string \<Rightarrow> string \<Rightarrow> Values \<Rightarrow> Values" where
  "add_when b k v m = (if b then Add m k v else m)"

definition is_other :: "iface \<Rightarrow> bool" where
  "is_other d = (case d of IOther ty \<Rightarrow> True | _ \<Rightarrow> False)"

definition date_text :: "iface \<Rightarrow> string" where
  "date_text d = (case d of IString v \<Rightarrow> v | ITime v \<Rightarrow> Format_RFC3339 v | _ \<Rightarrow> [])"

definition params_of :: "Client \<Rightarrow> SearchOptions \<Rightarrow> Values" where
  "params_of c opts =
     add_when (Format opts \<noteq> []) ''format'' (Format opts)
    (add_when (SortBy opts \<noteq> []) ''sortby'' (SortBy opts)
    (add_when (0 < Page opts) ''page'' (Sprintf_d (Page opts))
    (add_when (0 < Max opts) ''max'' (Sprintf_d (Max opts))
    (add_when (Publisher opts \<noteq> []) ''publisher'' (Join (Publisher opts) '','')
    (add_when (Attributes opts \<noteq> []) ''attributes'' (Join (Attributes opts) '','')
    (add_when (Category opts \<noteq> []) ''category'' (Join (Category opts) '','')
    (add_when (Region opts \<noteq> []) ''region'' (Join (Region opts) '','')
    (add_when (Country opts \<noteq> []) ''country'' (Join (Country opts) '','')
    (add_when (Lang opts \<noteq> []) ''lang'' (Join (Lang opts) '','')
    (add_when (Content opts \<noteq> None) ''content''
       (if Content opts = Some True then ''true'' else ''false'')
    (add_when (EndDate opts \<noteq> INil) ''endDate'' (date_text (EndDate opts))
    (add_when (StartDate opts \<noteq> INil) ''startDate'' (date_text (StartDate opts))
    (add_when (Query opts \<noteq> []) ''q'' (Query opts)
       [(''apikey'', [apiKey c])])))))))))))))"

text \<open>
  The URL of each call (the locals \<^verbatim>\<open>searchURL\<close> and \<^verbatim>\<open>headlinesURL\<close> of the source),
  and a world in which the request for a URL is created and answered by a response.
\<close>

definition searchURL :: "Client \<Rightarrow> Values \<Rightarrow> string" where
  "searchURL c params = baseURL c @ ''/v1/search?'' @ Encode params"

definition headlinesURL :: "Client \<Rightarrow> Values \<Rightarrow> string" where
  "headlinesURL c params = baseURL c @ ''/v1/headlines?'' @ Encode params"

definition answers :: "World \<Rightarrow> string \<Rightarrow> Response \<Rightarrow> bool" where
  "answers w url resp \<longleftrightarrow> url_error w url = None \<and> round_trip w url = Inr resp"

section \<open>Sample inputs\<close>

text \<open>
  The zero value of \<^verbatim>\<open>SearchOptions\<close>, the client of \<^verbatim>\<open>example/demo.go\<close>, and options
  that set a field of every kind.
\<close>

definition zero_SearchOptions :: SearchOptions where
  "zero_SearchOptions =
     \<lparr>Query = [], StartDate = INil, EndDate = INil, Content = None, Lang = [], Country = [],
      Region = [], Category = [], Max = 0, Attributes = [], Page = 0, SortBy = [],
      Publisher = [], Format = []\<rparr>"

definition demo_client :: Client where
  "demo_client =
     \<lparr>apiKey = ''your-api-key'', baseURL = ''https://api.allnewsapi.com'',
      Timeout = 30 * 1000000000\<rparr>"

definition sample_options :: SearchOptions where
  "sample_options =
     \<lparr>Query = ''bitcoin price'', StartDate = IString ''2024-01-01'',
      EndDate = ITime \<lparr>Year = 2024, Month = 3, Day = 5, Hour = 14, Minute = 7, Second = 9,
                         ZoneOffset = 19800\<rparr>,
      Content = Some True, Lang = [''en'', ''fr'', ''en''], Country = ['' us''], Region = [],
      Category = [''technology''], Max = 5, Attributes = [], Page = 0, SortBy = [],
      Publisher = [], Format = []\<rparr>"

text \<open>
  A mocked endpoint: every URL is accepted and answered with the given status and body,
  and no request has been sent yet. The sample document of the specification, the
  response it decodes to, a truncation of it, a document with a syntax error, a document
  whose \<^verbatim>\<open>totalArticles\<close> is no number, and a body whose connection fails after four
  bytes.
\<close>

definition mock_endpoint :: "int \<Rightarrow> Body \<Rightarrow> World" where
  "mock_endpoint status body =
     \<lparr>url_error = (\<lambda>url. None),
      round_trip = (\<lambda>url. Inr \<lparr>StatusCode = status, Body = body\<rparr>),
      parse_time = (\<lambda>s. None),
      requests = []\<rparr>"

definition sample_body :: string where
  \<open>sample_body =
     ''{"totalArticles":2,"currentPage":1,"nextPage":null,"articles":[{"title":"A","source":{"name":"S"}}]}''\<close>

definition sample_response :: SearchResponse where
  "sample_response =
     \<lparr>TotalArticles = 2, CurrentPage = 1, NextPage = None,
      Articles = [zero_Article\<lparr>Title := ''A'', Source := zero_Source\<lparr>Name := ''S''\<rparr>\<rparr>]\<rparr>"

definition truncated_body :: string where
  \<open>truncated_body = ''{"totalArticles":2,"currentPage":1,"nextPage":null,"articles":[{"title":"A"''\<close>

definition invalid_body :: string where
  \<open>invalid_body = ''{"totalArticles":}''\<close>

definition mistyped_body :: string where
  \<open>mistyped_body = ''{"totalArticles":true}''\<close>

definition partial_body :: Body where
  "partial_body = \<lparr>delivered = ''rate'', ending = ReadError ''connection reset by peer''\<rparr>"

section \<open>Lemmas\<close>

text \<open>
  Every byte, checked one by one: what is left unescaped is none of the bytes the
  parser treats specially, and the two hexadecimal digits of an escape give the byte
  back.
\<close>

lemma char_facts:
  "\<forall>c::char.
     (c = CHR '' '' \<or> shouldEscape c
        \<or> (c \<noteq> CHR ''%'' \<and> c \<noteq> CHR ''+'' \<and> c \<noteq> CHR ''&'' \<and> c \<noteq> CHR ''='' \<and> c \<noteq> CHR '';''))
   \<and> ishex (upperhex (of_char c div 16)) \<and> ishex (upperhex (of_char c mod 16))
   \<and> char_of (unhex (upperhex (of_char c div 16)) * 16 + unhex (upperhex (of_char c mod 16))) = c
   \<and> upperhex (of_char c div 16) \<notin> {CHR ''&'', CHR ''='', CHR '';''}
   \<and> upperhex (of_char c mod 16) \<notin> {CHR ''&'', CHR ''='', CHR '';''}"
  by code_simp

lemma escaped_bytes:
  assumes "x \<in> set (escape_byte c)"
  shows "x \<noteq> CHR ''&'' \<and> x \<noteq> CHR ''='' \<and> x \<noteq> CHR '';''"
  using assms char_facts [rule_format, of c]
  by (auto simp: escape_byte_def split: if_splits)

lemma QueryUnescape_escape_byte:
  "QueryUnescape (escape_byte c @ r) = map_option ((#) c) (QueryUnescape r)"
  using char_facts [rule_format, of c]
  by (auto simp: escape_byte_def)

lemma QueryUnescape_QueryEscape_append:
  "QueryUnescape (QueryEscape s @ r) = map_option ((@) s) (QueryUnescape r)"
proof (induction s)
  case Nil
  show ?case by (simp add: QueryEscape_def option.map_ident)
next
  case (Cons c s)
  have "QueryUnescape (QueryEscape (c # s) @ r)
          = map_option ((#) c) (QueryUnescape (QueryEscape s @ r))"
    by (simp add: QueryEscape_def QueryUnescape_escape_byte)
  then show ?case
    by (simp add: Cons.IH option.map_comp comp_def)
qed

lemma QueryUnescape_QueryEscape: "QueryUnescape (QueryEscape s) = Some s"
  using QueryUnescape_QueryEscape_append [of s "[]"] by simp

lemma QueryEscape_bytes:
  "x \<in> set (QueryEscape s) \<Longrightarrow> x \<noteq> CHR ''&'' \<and> x \<noteq> CHR ''='' \<and> x \<noteq> CHR '';''"
  using escaped_bytes by (auto simp: QueryEscape_def)

lemma Cut_absent: "sep \<notin> set a \<Longrightarrow> Cut (a @ sep # b) sep = (a, b)"
  by (induction a) auto

lemma parse_pair_segment: "parse_pair (segment p) = Some p"
proof (cases p)
  case (Pair k v)
  have "CHR ''='' \<notin> set (QueryEscape k)"
    using QueryEscape_bytes by blast
  then have "Cut (segment (k, v)) CHR ''='' = (QueryEscape k, QueryEscape v)"
    by (simp add: segment_def Cut_absent)
  moreover have "CHR '';'' \<notin> set (segment (k, v))"
    using QueryEscape_bytes [of "CHR '';''"] by (auto simp: segment_def)
  ultimately show ?thesis
    by (simp add: Pair parse_pair_def QueryUnescape_QueryEscape)
qed

lemma split_on_absent: "sep \<notin> set a \<Longrightarrow> split_on sep a = [a]"
  by (induction a) auto

lemma split_on_append:
  "sep \<notin> set a \<Longrightarrow> split_on sep (a @ sep # b) = a # split_on sep b"
  by (induction a) auto

lemma split_on_Join:
  assumes "\<forall>x \<in> set xs. sep \<notin> set x" and "xs \<noteq> []"
  shows "split_on sep (Join xs [sep]) = xs"
  using assms
proof (induction xs "[sep]" rule: Join.induct)
  case 1
  then show ?case by simp
next
  case (2 x)
  then show ?case by (simp add: split_on_absent)
next
  case (3 x y ys)
  then show ?case by (simp add: split_on_append)
qed

lemma segment_nonempty: "segment p \<noteq> []"
  by (simp add: segment_def)

lemma segment_no_amp: "CHR ''&'' \<notin> set (segment p)"
  using QueryEscape_bytes [of "CHR ''&''"] by (auto simp: segment_def)

lemma those_parse_pairs: "those (map (\<lambda>p. parse_pair (segment p)) ps) = Some ps"
  by (induction ps) (auto simp: parse_pair_segment)

lemma pieces_Encode: "pieces (Encode m) = map segment (pairs m)"
proof (cases "pairs m = []")
  case True
  then show ?thesis by (simp add: pieces_def Encode_def)
next
  case False
  let ?segs = "map segment (pairs m)"
  have "split_on CHR ''&'' (Join ?segs ''&'') = ?segs"
    using False segment_no_amp by (intro split_on_Join) auto
  moreover have "filter (\<lambda>p. p \<noteq> []) ?segs = ?segs"
    by (simp add: segment_nonempty)
  ultimately show ?thesis
    by (simp add: pieces_def Encode_def)
qed

lemma ParseQuery_Encode: "ParseQuery (Encode m) = Some (pairs m)"
  by (simp add: ParseQuery_def pieces_Encode comp_def those_parse_pairs)

lemma encoded_values_pairs:
  "encoded_values m key = map snd (filter (\<lambda>p. fst p = key) (pairs m))"
  by (simp add: encoded_values_def query_values_def ParseQuery_Encode)

lemma encoded_segments_pairs:
  "encoded_segments m key = map segment (filter (\<lambda>p. fst p = key) (pairs m))"
proof -
  have "(\<lambda>p. map_option fst (parse_pair (segment p)) = Some key) = (\<lambda>p. fst p = key)"
    by (simp add: parse_pair_segment)
  then show ?thesis
    by (simp add: encoded_segments_def query_segments_def pieces_Encode filter_map comp_def)
qed

text \<open>The parameters \<^verbatim>\<open>Search\<close> builds.\<close>

lemma lookup_Nil [simp]: "lookup [] k = []"
  by (simp add: lookup_def)

lemma lookup_Cons [simp]: "lookup ((k, vs) # m) k' = (if k' = k then vs else lookup m k')"
  by (simp add: lookup_def)

lemma lookup_Add: "lookup (Add m k v) k' = (if k' = k then lookup m k @ [v] else lookup m k')"
  by (induction m k v rule: Add.induct) auto

lemma lookup_add_when:
  "lookup (add_when b k v m) k' = (if b \<and> k' = k then lookup m k @ [v] else lookup m k')"
  by (simp add: add_when_def lookup_Add)

lemma fold_add_when: "(if b then Add m k v else m) = add_when b k v m"
  by (simp add: add_when_def)

lemma keys_Add:
  "map fst (Add m k v) = (if k \<in> set (map fst m) then map fst m else map fst m @ [k])"
  by (induction m k v rule: Add.induct) auto

lemma distinct_keys_Add: "distinct (map fst m) \<Longrightarrow> distinct (map fst (Add m k v))"
  by (simp add: keys_Add)

lemma distinct_keys_add_when: "distinct (map fst m) \<Longrightarrow> distinct (map fst (add_when b k v m))"
  by (simp add: add_when_def distinct_keys_Add)

lemma lookup_not_key: "k \<notin> set (map fst m) \<Longrightarrow> lookup m k = []"
proof -
  assume "k \<notin> set (map fst m)"
  then have "map_of m k = None" by (simp add: map_of_eq_None_iff)
  then show ?thesis by (simp add: lookup_def)
qed

lemma concat_select:
  "distinct ks \<Longrightarrow>
   concat (map (\<lambda>k'. if k' = k then xs else []) ks) = (if k \<in> set ks then xs else [])"
  by (induction ks) auto

lemma filter_key_pairs:
  "filter (\<lambda>p. fst p = k) (map (Pair k') vs) = (if k' = k then map (Pair k') vs else [])"
  by (induction vs) auto

lemma encoded_values_lookup:
  assumes "distinct (map fst m)"
  shows "encoded_values m k = lookup m k"
proof -
  let ?ks = "sort (map fst m)"
  have d: "distinct ?ks" using assms by simp
  have "encoded_values m k = concat (map (\<lambda>k'. if k' = k then lookup m k else []) ?ks)"
    by (simp add: encoded_values_pairs pairs_def filter_concat map_concat comp_def
        filter_key_pairs if_distrib [of "map snd"] cong: if_cong)
  also have "\<dots> = (if k \<in> set ?ks then lookup m k else [])"
    using d by (rule concat_select)
  also have "\<dots> = lookup m k"
    using lookup_not_key [of k m] by simp
  finally show ?thesis .
qed

lemma Headlines_params_eq: "Headlines_params c options = Search_params c options"
  by (simp only: Headlines_params_def Search_params_def)

lemma Search_params_None: "Search_params c None = Inr [(''apikey'', [apiKey c])]"
  by (simp add: Search_params_def)

lemma encoded_segments_values:
  "encoded_segments m k = map (\<lambda>v. segment (k, v)) (encoded_values m k)"
  unfolding encoded_segments_pairs encoded_values_pairs
  by (induction "pairs m") (auto simp: filter_map comp_def intro!: map_cong [OF refl])

lemma add_when_True: "add_when True k v m = Add m k v"
  by (simp add: add_when_def)

lemma add_when_False: "add_when False k v m = m"
  by (simp add: add_when_def)

lemma Search_params_Some:
  "Search_params c (Some opts) =
     (if is_other (StartDate opts) then Inl StartDateTypeError
      else if is_other (EndDate opts) then Inl EndDateTypeError
      else Inr (params_of c opts))"
  unfolding Search_params_def params_of_def
  apply (simp only: fold_add_when)
  apply (simp only: Let_def)
  apply (cases "StartDate opts"; cases "EndDate opts"; cases "Content opts")
  apply (simp_all add: is_other_def date_text_def add_when_True add_when_False)
  done

lemma lookup_params_of:
  "lookup (params_of c opts) ''apikey'' = [apiKey c]"
  "lookup (params_of c opts) ''q'' = (if Query opts = [] then [] else [Query opts])"
  "lookup (params_of c opts) ''startDate'' =
     (if StartDate opts = INil then [] else [date_text (StartDate opts)])"
  "lookup (params_of c opts) ''endDate'' =
     (if EndDate opts = INil then [] else [date_text (EndDate opts)])"
  "lookup (params_of c opts) ''content'' =
     (case Content opts of None \<Rightarrow> [] | Some b \<Rightarrow> [if b then ''true'' else ''false''])"
  "lookup (params_of c opts) ''lang'' = (if Lang opts = [] then [] else [Join (Lang opts) '',''])"
  "lookup (params_of c opts) ''country'' =
     (if Country opts = [] then [] else [Join (Country opts) '',''])"
  "lookup (params_of c opts) ''region'' =
     (if Region opts = [] then [] else [Join (Region opts) '',''])"
  "lookup (params_of c opts) ''category'' =
     (if Category opts = [] then [] else [Join (Category opts) '',''])"
  "lookup (params_of c opts) ''attributes'' =
     (if Attributes opts = [] then [] else [Join (Attributes opts) '',''])"
  "lookup (params_of c opts) ''publisher'' =
     (if Publisher opts = [] then [] else [Join (Publisher opts) '',''])"
  "lookup (params_of c opts) ''max'' = (if 0 < Max opts then [Sprintf_d (Max opts)] else [])"
  "lookup (params_of c opts) ''page'' = (if 0 < Page opts then [Sprintf_d (Page opts)] else [])"
  "lookup (params_of c opts) ''sortby'' = (if SortBy opts = [] then [] else [SortBy opts])"
  "lookup (params_of c opts) ''format'' = (if Format opts = [] then [] else [Format opts])"
  by (simp_all add: params_of_def lookup_add_when split: option.splits)

lemma distinct_params_of: "distinct (map fst (params_of c opts))"
  by (simp add: params_of_def distinct_keys_add_when)

lemma encoded_params_of: "encoded_values (params_of c opts) k = lookup (params_of c opts) k"
  by (rule encoded_values_lookup [OF distinct_params_of])

lemma params_built:
  assumes "Search_params c (Some opts) = Inr ps \<or> Headlines_params c (Some opts) = Inr ps"
  shows "ps = params_of c opts"
  using assms by (auto simp: Headlines_params_eq Search_params_Some split: if_splits)

lemma is_other_iff: "is_other d \<longleftrightarrow> (\<exists>ty. d = IOther ty)"
  by (cases d) (simp_all add: is_other_def)

lemma Search_params_dates:
  assumes "\<forall>ty. StartDate opts \<noteq> IOther ty" and "\<forall>ty. EndDate opts \<noteq> IOther ty"
  shows "Search_params c (Some opts) = Inr (params_of c opts)"
  using assms by (simp add: Search_params_Some is_other_iff)

text \<open>
  The client of the example program, as \<^verbatim>\<open>NewClient\<close> builds it, and the sample
  options: the parameters built, and the query string on the wire.
\<close>

lemma demo_client_new: "NewClient ''your-api-key'' [] = Inr demo_client"
  by (simp add: NewClient_def demo_client_def)

lemma NewClient_empty_key: "NewClient [] options = Inl ''API key is required''"
  by (simp add: NewClient_def)

lemma sample_params:
  "Search_params demo_client (Some sample_options) =
     Inr [(''apikey'', [''your-api-key'']), (''q'', [''bitcoin price'']),
          (''startDate'', [''2024-01-01'']), (''endDate'', [''2024-03-05T14:07:09+05:30'']),
          (''content'', [''true'']), (''lang'', [''en,fr,en'']), (''country'', ['' us'']),
          (''category'', [''technology'']), (''max'', [''5''])]"
  by code_simp

lemma sample_query:
  "Encode [(''apikey'', [''your-api-key'']), (''q'', [''bitcoin price'']),
           (''startDate'', [''2024-01-01'']), (''endDate'', [''2024-03-05T14:07:09+05:30'']),
           (''content'', [''true'']), (''lang'', [''en,fr,en'']), (''country'', ['' us'']),
           (''category'', [''technology'']), (''max'', [''5''])]
   = ''apikey=your-api-key&category=technology&content=true&country=+us&endDate=2024-03-05T14%3A07%3A09%2B05%3A30&lang=en%2Cfr%2Cen&max=5&q=bitcoin+price&startDate=2024-01-01''"
  by code_simp

lemma segment_content:
  "segment (''content'', ''true'') = ''content=true''"
  "segment (''content'', ''false'') = ''content=false''"
  by (simp_all add: segment_def QueryEscape_def escape_byte_def shouldEscape_def)

lemma Sprintf_d_5: "Sprintf_d 5 = ''5''"
  by (simp add: Sprintf_d_def show_nat.simps digit_char_def)

lemma segment_max_5: "segment (''max'', ''5'') = ''max=5''"
  by (simp add: segment_def QueryEscape_def escape_byte_def shouldEscape_def)



lemma Search_no_request:
  assumes "Search_params c options = Inr ps" and "url_error w (searchURL c ps) = Some err"
  shows "Search c options w = (Inl (CreatingRequest err), w)"
  using assms by (simp add: Search_def searchURL_def)

lemma Headlines_no_request:
  assumes "Search_params c options = Inr ps" and "url_error w (headlinesURL c ps) = Some err"
  shows "Headlines c options w = (Inl (CreatingRequest err), w)"
  using assms by (simp add: Headlines_def Headlines_params_eq headlinesURL_def)

lemma Search_sends:
  assumes "Search_params c options = Inr ps" and "url_error w (searchURL c ps) = None"
  shows "snd (Search c options w) = w\<lparr>requests := requests w @ [searchURL c ps]\<rparr>"
  using assms
  by (simp add: Search_def searchURL_def Do_def ReadAll_def Let_def split: sum.splits)

lemma Headlines_sends:
  assumes "Search_params c options = Inr ps" and "url_error w (headlinesURL c ps) = None"
  shows "snd (Headlines c options w) = w\<lparr>requests := requests w @ [headlinesURL c ps]\<rparr>"
  using assms
  by (simp add: Headlines_def Headlines_params_eq headlinesURL_def Do_def ReadAll_def Let_def
      split: sum.splits)

lemma Search_answered:
  assumes "Search_params c options = Inr ps" and "answers w (searchURL c ps) resp"
  shows "fst (Search c options w) =
           (if StatusCode resp \<noteq> 200
            then Inl (APIError (StatusCode resp) (delivered (Body resp)))
            else case Decode (parse_time w) (Body resp) of
                   Inl cause \<Rightarrow> Inl (ParsingResponse cause)
                 | Inr searchResponse \<Rightarrow> Inr searchResponse)"
  using assms
  by (simp add: Search_def searchURL_def answers_def Do_def ReadAll_def Let_def
      split: sum.splits)

lemma Headlines_answered:
  assumes "Search_params c options = Inr ps" and "answers w (headlinesURL c ps) resp"
  shows "fst (Headlines c options w) =
           (if StatusCode resp \<noteq> 200
            then Inl (APIError (StatusCode resp) (delivered (Body resp)))
            else case Decode (parse_time w) (Body resp) of
                   Inl cause \<Rightarrow> Inl (ParsingResponse cause)
                 | Inr searchResponse \<Rightarrow> Inr searchResponse)"
  using assms
  by (simp add: Headlines_def Headlines_params_eq headlinesURL_def answers_def Do_def
      ReadAll_def Let_def split: sum.splits)

lemma Search_transport_error:
  assumes "Search_params c options = Inr ps" and "url_error w (searchURL c ps) = None"
    and "round_trip w (searchURL c ps) = Inl err"
  shows "fst (Search c options w) = Inl (MakingRequest err)"
  using assms by (simp add: Search_def searchURL_def Do_def Let_def)

text \<open>The mocked endpoint and the sample documents.\<close>

lemma mock_answers: "answers (mock_endpoint status body) url \<lparr>StatusCode = status, Body = body\<rparr>"
  by (simp add: answers_def mock_endpoint_def)

lemma scan_sample_body:
  "scan sample_body =
     Finished (JObject
       [(''totalArticles'', JNumber ''2''), (''currentPage'', JNumber ''1''),
        (''nextPage'', JNull),
        (''articles'', JArray [JObject [(''title'', JString ''A''),
                                        (''source'', JObject [(''name'', JString ''S'')])]])])"
  by code_simp

lemma unmarshal_sample:
  "unmarshal parse (JObject
       [(''totalArticles'', JNumber ''2''), (''currentPage'', JNumber ''1''),
        (''nextPage'', JNull),
        (''articles'', JArray [JObject [(''title'', JString ''A''),
                                        (''source'', JObject [(''name'', JString ''S'')])]])])
   = Some \<lparr>TotalArticles = 2, CurrentPage = 1, NextPage = None,
           Articles = [zero_Article\<lparr>Title := ''A'', Source := zero_Source\<lparr>Name := ''S''\<rparr>\<rparr>]\<rparr>"
  by code_simp

lemma Decode_sample_body:
  assumes "delivered b = sample_body"
  shows "Decode parse b = Inr sample_response"
  by (simp add: Decode_def readValue_def assms scan_sample_body unmarshal_sample
      sample_response_def)


lemma mock_call:
  "fst (Search demo_client None (mock_endpoint status body)) =
     (if status \<noteq> 200 then Inl (APIError status (delivered body))
      else case Decode (\<lambda>s. None) body of
             Inl cause \<Rightarrow> Inl (ParsingResponse cause)
           | Inr searchResponse \<Rightarrow> Inr searchResponse)"
  "fst (Headlines demo_client None (mock_endpoint status body)) =
     (if status \<noteq> 200 then Inl (APIError status (delivered body))
      else case Decode (\<lambda>s. None) body of
             Inl cause \<Rightarrow> Inl (ParsingResponse cause)
           | Inr searchResponse \<Rightarrow> Inr searchResponse)"
  using Search_answered [OF Search_params_None mock_answers, of demo_client status body]
    Headlines_answered [OF Search_params_None mock_answers, of demo_client status body]
  by (simp_all add: mock_endpoint_def)

lemma Decode_truncated_body:
  "Decode parse \<lparr>delivered = truncated_body, ending = EOF\<rparr> = Inl UnexpectedEOF"
  by code_simp

lemma Decode_trailing: "Decode parse \<lparr>delivered = ''{}x'', ending = EOF\<rparr> = Inr zero_SearchResponse"
  by code_simp

text \<open>
  The scanner: inside an open array or object the end of the input never completes a
  value, and an open array or object has been opened by a byte that is not white space.
\<close>

lemma isSpace_space: "isSpace CHR '' ''"
  by (simp add: isSpace_def)

lemma deliver_open: "st \<noteq> [] \<Longrightarrow> deliver v st \<noteq> Finished v'"
  by (cases "(v, st)" rule: deliver.cases) auto

lemma end_value_space: "end_value st CHR '' '' \<noteq> Finished v"
  by (auto simp: end_value_def isSpace_space split: list.splits)

lemma finish_number_space: "st \<noteq> [] \<Longrightarrow> finish_number lit st CHR '' '' \<noteq> Finished v"
  by (auto simp: finish_number_def end_value_space deliver_open
      split: list.splits scanner.splits)

lemma number_step_space: "st \<noteq> [] \<Longrightarrow> number_step ns lit st CHR '' '' \<noteq> Finished v"
  by (cases ns) (auto simp: after_int_def after_exp_sign_def finish_number_space)

lemma mode_step_space:
  assumes "st \<noteq> []"
  shows "mode_step m st CHR '' '' \<noteq> Finished v'"
  using assms
  by (cases m)
    (auto simp: begin_value_def begin_string_def end_string_def isSpace_space
      end_value_space number_step_space deliver_open quote_def backslash_def
      split: list.splits frame.splits)

lemma readValue_open:
  assumes "scan (delivered b) = Scanning st m" and "st \<noteq> []"
  shows "readValue b =
           Inl (case ending b of
                  ReadError e \<Rightarrow> ReadFailed e
                | EOF \<Rightarrow> if nonSpace (delivered b) then UnexpectedEOF else EOF_error)"
proof -
  have "step (Scanning st m) CHR '' '' \<noteq> Finished v" for v
    using assms(2) by (simp add: mode_step_space)
  then show ?thesis
    by (auto simp: readValue_def assms(1) split: body_end.splits scanner.splits)
qed

lemma Decode_open:
  assumes "scan (delivered b) = Scanning st m" and "st \<noteq> []"
  shows "\<exists>cause. Decode parse b = Inl cause"
  by (simp add: Decode_def readValue_open [OF assms])

lemma Decode_Failed:
  assumes "scan (delivered b) = Failed"
  shows "Decode parse b = Inl SyntaxError"
  by (simp add: Decode_def readValue_def assms)

text \<open>
  A value that \<^verbatim>\<open>Decode\<close> reads is the value of a leading part of the body that is
  valid JSON as a whole: the scanner and \<^verbatim>\<open>json.Valid\<close> go the same way up to the byte
  that completes the value. So a body of which no leading part is valid JSON for the
  \<^verbatim>\<open>SearchResponse\<close> shape is refused.
\<close>

lemma foldl_step_Finished: "foldl step (Finished v) s = Finished v"
  by (induction s) simp_all

lemma foldl_step_Failed: "foldl step Failed s = Failed"
  by (induction s) simp_all

lemma valid_scan_agrees:
  "foldl step (Scanning [] BeginValue) s = Scanning st m \<Longrightarrow>
   foldl valid_step (Scanning [] BeginValue) s = Scanning st m"
proof (induction s arbitrary: st m rule: rev_induct)
  case Nil
  then show ?case by simp
next
  case (snoc c q)
  show ?case
  proof (cases "foldl step (Scanning [] BeginValue) q")
    case (Scanning st' m')
    then have "foldl valid_step (Scanning [] BeginValue) q = Scanning st' m'"
      by (rule snoc.IH)
    moreover have "step (Scanning st' m') c = Scanning st m"
      using snoc.prems Scanning by simp
    ultimately show ?thesis
      by simp
  next
    case (Finished v)
    then show ?thesis using snoc.prems by simp
  next
    case Failed
    then show ?thesis using snoc.prems by simp
  qed
qed

lemma scan_first_finish:
  "scan s = Finished v \<Longrightarrow>
   \<exists>q c r st m. s = q @ c # r \<and> scan q = Scanning st m \<and> step (Scanning st m) c = Finished v"
proof (induction s rule: rev_induct)
  case Nil
  then show ?case by (simp add: scan_def)
next
  case (snoc c q)
  show ?case
  proof (cases "scan q")
    case (Scanning st m)
    then have "step (Scanning st m) c = Finished v"
      using snoc.prems by (simp add: scan_def)
    then have "q @ [c] = q @ c # [] \<and> scan q = Scanning st m \<and> step (Scanning st m) c = Finished v"
      using Scanning by simp
    then show ?thesis by blast
  next
    case (Finished v')
    then have "v' = v"
      using snoc.prems by (simp add: scan_def)
    then obtain q' c' r st m where "q = q' @ c' # r" "scan q' = Scanning st m"
      "step (Scanning st m) c' = Finished v"
      using snoc.IH Finished by blast
    then have "q @ [c] = q' @ c' # (r @ [c]) \<and> scan q' = Scanning st m
        \<and> step (Scanning st m) c' = Finished v"
      by simp
    then show ?thesis by blast
  next
    case Failed
    then show ?thesis using snoc.prems by (simp add: scan_def)
  qed
qed

lemma finish_number_top: "finish_number lit [] c = Finished (JNumber lit)"
  by (simp add: finish_number_def)

lemma number_ends_at_space:
  "number_step ns lit [] c = Finished v \<Longrightarrow> number_step ns lit [] CHR '' '' = Finished v"
  by (cases ns)
    (auto simp: after_int_def after_exp_sign_def finish_number_top isDigit_def
      split: if_splits)

lemma whole_value_number:
  assumes "scan q = Scanning [] m" and "is_number m" and "step (Scanning [] m) c = Finished v"
  shows "whole_value q = Some v"
proof -
  obtain ns lit where m: "m = InNumber ns lit"
    using assms(2) by (cases m) (simp_all add: is_number_def)
  have "foldl valid_step (Scanning [] BeginValue) q = Scanning [] m"
    using assms(1) by (simp add: scan_def valid_scan_agrees)
  moreover have "step (Scanning [] m) CHR '' '' = Finished v"
    using assms(3) by (simp add: m number_ends_at_space)
  ultimately show ?thesis
    by (simp add: whole_value_def isSpace_space)
qed

lemma whole_value_closed:
  assumes "scan q = Scanning st m" and "\<not> (st = [] \<and> is_number m)"
    and "step (Scanning st m) c = Finished v"
  shows "whole_value (q @ [c]) = Some v"
proof -
  have "foldl valid_step (Scanning [] BeginValue) q = Scanning st m"
    using assms(1) by (simp add: scan_def valid_scan_agrees)
  then have "foldl valid_step (Scanning [] BeginValue) (q @ [c]) = Finished v"
    using assms(2,3) by auto
  then show ?thesis
    by (simp add: whole_value_def isSpace_space)
qed

lemma deliver_literal_ok: "deliver v st = Scanning st' m' \<Longrightarrow> literal_ok m'"
  by (cases "(v, st)" rule: deliver.cases) (auto simp: literal_ok_def)

lemma end_value_literal_ok: "end_value st c = Scanning st' m' \<Longrightarrow> literal_ok m'"
  by (auto simp: end_value_def literal_ok_def split: list.splits frame.splits if_splits
      dest: deliver_literal_ok)

lemma finish_number_literal_ok: "finish_number lit st c = Scanning st' m' \<Longrightarrow> literal_ok m'"
  by (auto simp: finish_number_def split: list.splits scanner.splits
      dest: end_value_literal_ok)

lemma number_step_literal_ok: "number_step ns lit st c = Scanning st' m' \<Longrightarrow> literal_ok m'"
  by (cases ns)
    (auto simp: after_int_def after_exp_sign_def literal_ok_def split: if_splits
      dest: finish_number_literal_ok)

lemma mode_step_literal_ok:
  "literal_ok m \<Longrightarrow> mode_step m st c = Scanning st' m' \<Longrightarrow> literal_ok m'"
  by (cases m)
    (auto simp: begin_value_def begin_string_def end_string_def literal_ok_def
      split: if_splits list.splits frame.splits
      dest: deliver_literal_ok end_value_literal_ok number_step_literal_ok)

lemma scan_literal_ok: "scan s = Scanning st m \<Longrightarrow> literal_ok m"
proof (induction s arbitrary: st m rule: rev_induct)
  case Nil
  then show ?case by (auto simp: scan_def literal_ok_def)
next
  case (snoc c q)
  show ?case
  proof (cases "scan q")
    case (Scanning st' m')
    then show ?thesis
      using snoc.prems snoc.IH [OF Scanning] mode_step_literal_ok [of m' st' c st m]
      by (simp add: scan_def)
  next
    case (Finished v)
    then show ?thesis using snoc.prems by (simp add: scan_def)
  next
    case Failed
    then show ?thesis using snoc.prems by (simp add: scan_def)
  qed
qed

lemma step_space_number:
  assumes "step (Scanning st m) CHR '' '' = Finished v" and "literal_ok m"
  shows "st = [] \<and> is_number m"
proof -
  have "st = []"
    using assms mode_step_space [of st m v] by auto
  moreover have "is_number m"
    using assms \<open>st = []\<close>
    by (cases m)
      (auto simp: is_number_def begin_value_def begin_string_def end_value_def isSpace_space
        literal_ok_def quote_def backslash_def split: list.splits if_splits)
  ultimately show ?thesis by simp
qed

lemma readValue_prefix:
  assumes "readValue b = Inr v"
  shows "\<exists>p. prefix p (delivered b) \<and> whole_value p = Some v"
proof (cases "scan (delivered b)")
  case (Finished v')
  then have "v' = v"
    using assms by (simp add: readValue_def)
  then obtain q c r st m where s: "delivered b = q @ c # r" "scan q = Scanning st m"
    "step (Scanning st m) c = Finished v"
    using scan_first_finish Finished by blast
  show ?thesis
  proof (cases "st = [] \<and> is_number m")
    case True
    then have "whole_value q = Some v"
      using s whole_value_number by blast
    moreover have "prefix q (delivered b)"
      by (simp add: s(1))
    ultimately show ?thesis by blast
  next
    case False
    then have "whole_value (q @ [c]) = Some v"
      using s whole_value_closed by blast
    moreover have "prefix (q @ [c]) (delivered b)"
      by (simp add: s(1) prefix_def)
    ultimately show ?thesis by blast
  qed
next
  case (Scanning st m)
  then have f: "step (Scanning st m) CHR '' '' = Finished v"
    using assms
    by (auto simp: readValue_def split: body_end.splits scanner.splits if_splits)
  then have "st = [] \<and> is_number m"
    using scan_literal_ok [OF Scanning] by (rule step_space_number)
  then have "whole_value (delivered b) = Some v"
    using Scanning f whole_value_number by blast
  then show ?thesis by blast
next
  case Failed
  then show ?thesis using assms by (simp add: readValue_def)
qed

lemma Decode_prefix:
  assumes "Decode parse b = Inr r"
  shows "\<exists>p \<in> set (prefixes (delivered b)). Unmarshal parse p = Some r"
proof -
  obtain v where v: "readValue b = Inr v" "unmarshal parse v = Some r"
    using assms by (auto simp: Decode_def split: sum.splits option.splits)
  then obtain p where "prefix p (delivered b)" "whole_value p = Some v"
    using readValue_prefix by blast
  then have "p \<in> set (prefixes (delivered b))" "Unmarshal parse p = Some r"
    using v(2) by (simp_all add: Unmarshal_def in_set_prefixes)
  then show ?thesis by blast
qed

lemma Decode_no_prefix:
  assumes "\<forall>p \<in> set (prefixes (delivered b)). Unmarshal parse p = None"
  shows "\<exists>cause. Decode parse b = Inl cause"
proof (cases "Decode parse b")
  case (Inl cause)
  then show ?thesis by blast
next
  case (Inr r)
  then show ?thesis
    using Decode_prefix [OF Inr] assms by auto
qed

lemma scan_spaces:
  "\<not> nonSpace s \<Longrightarrow> scan s = Scanning [] BeginValue"
  by (induction s rule: rev_induct) (auto simp: scan_def nonSpace_def begin_value_def)

lemma scan_open_nonSpace:
  "scan s = Scanning st m \<Longrightarrow> st \<noteq> [] \<Longrightarrow> nonSpace s"
  using scan_spaces [of s] by auto

lemma Decode_truncated:
  assumes "scan (delivered b) = Scanning st m" and "st \<noteq> []" and "ending b = EOF"
  shows "Decode parse b = Inl UnexpectedEOF"
  using assms scan_open_nonSpace [OF assms(1,2)]
  by (simp add: Decode_def readValue_open)

lemma Decode_unfinished:
  assumes "scan (delivered b) = Scanning st m" and "st \<noteq> [] \<or> \<not> is_number m"
    and "ending b = EOF"
  shows "Decode parse b = Inl (if nonSpace (delivered b) then UnexpectedEOF else EOF_error)"
proof -
  have "step (Scanning st m) CHR '' '' \<noteq> Finished v" for v
    using assms(2) scan_literal_ok [OF assms(1)] step_space_number [of st m v] by blast
  then show ?thesis
    by (auto simp: Decode_def readValue_def assms(1,3) split: scanner.splits)
qed

lemma Decode_shape:
  assumes "scan (delivered b) = Finished v" and "unmarshal parse v = None"
  shows "Decode parse b = Inl UnmarshalError"
  using assms by (simp add: Decode_def readValue_def)

text \<open>
  The other way round: a body with a leading part that is valid JSON for the
  \<^verbatim>\<open>SearchResponse\<close> shape is decoded to what that part holds, whatever follows it.
\<close>

lemma valid_step_Failed: "foldl valid_step Failed s = Failed"
  by (induction s) simp_all

lemma scan_valid_agrees:
  "foldl valid_step (Scanning [] BeginValue) s \<noteq> Failed \<Longrightarrow>
   scan s = foldl valid_step (Scanning [] BeginValue) s"
proof (induction s rule: rev_induct)
  case Nil
  then show ?case by (simp add: scan_def)
next
  case (snoc c q)
  let ?v = "foldl valid_step (Scanning [] BeginValue) q"
  have nf: "valid_step ?v c \<noteq> Failed"
    using snoc.prems by simp
  then have "?v \<noteq> Failed"
    by auto
  then have q: "scan q = ?v"
    by (rule snoc.IH)
  show ?case
  proof (cases ?v)
    case (Scanning st m)
    then have "valid_step ?v c = step (Scanning st m) c"
      using nf by (auto split: scanner.splits if_splits)
    then show ?thesis
      using q Scanning by (simp add: scan_def)
  next
    case (Finished v)
    then show ?thesis
      using nf q by (auto simp: scan_def split: if_splits)
  next
    case Failed
    then show ?thesis using \<open>?v \<noteq> Failed\<close> by simp
  qed
qed

lemma scan_append: "scan (p @ r) = foldl step (scan p) r"
  by (simp add: scan_def)

lemma number_step_value:
  "number_step ns lit [] c = Finished v \<Longrightarrow> v = JNumber lit"
  by (cases ns)
    (auto simp: after_int_def after_exp_sign_def finish_number_top split: if_splits)

lemma unmarshal_number: "unmarshal parse (JNumber lit) = None"
  by (simp add: unmarshal_def)

lemma Decode_some_prefix:
  assumes "prefix p (delivered b)" and "Unmarshal parse p = Some r"
  shows "Decode parse b = Inr r"
proof -
  obtain v where v: "whole_value p = Some v" "unmarshal parse v = Some r"
    using assms(2) by (auto simp: Unmarshal_def split: option.splits)
  obtain rest where rest: "delivered b = p @ rest"
    using assms(1) by (auto simp: prefix_def)
  let ?s = "foldl valid_step (Scanning [] BeginValue) p"
  have e: "valid_step ?s CHR '' '' = Finished v"
    using v(1) by (auto simp: whole_value_def split: scanner.splits)
  then have nf: "?s \<noteq> Failed"
    by auto
  have "?s = Finished v"
  proof (cases ?s)
    case (Scanning st m)
    then have f: "step (Scanning st m) CHR '' '' = Finished v"
      using e by (auto split: scanner.splits if_splits)
    have "scan p = Scanning st m"
      using scan_valid_agrees [OF nf] Scanning by simp
    then have "st = [] \<and> is_number m"
      using f scan_literal_ok step_space_number by blast
    then obtain ns lit where "m = InNumber ns lit" "st = []"
      by (cases m) (simp_all add: is_number_def)
    then have "v = JNumber lit"
      using f by (simp add: number_step_value)
    then show ?thesis
      using v(2) by (simp add: unmarshal_number)
  next
    case (Finished v')
    then show ?thesis using e by (auto split: if_splits)
  next
    case Failed
    then show ?thesis using nf by simp
  qed
  then have "scan p = Finished v"
    using scan_valid_agrees [OF nf] by simp
  then have "scan (delivered b) = Finished v"
    by (simp add: rest scan_append foldl_step_Finished)
  then show ?thesis
    using v(2) by (simp add: Decode_def readValue_def)
qed

text \<open>
  A read error right after a top-level value: a literal, a string and an object are
  complete before the error.
\<close>

lemma Decode_literal_read_error:
  "Decode parse \<lparr>delivered = ''null'', ending = ReadError e\<rparr> = Inr zero_SearchResponse"
  by code_simp

lemma Decode_string_read_error:
  \<open>Decode parse \<lparr>delivered = ''"abc"'', ending = ReadError e\<rparr> = Inl UnmarshalError\<close>
  by code_simp

lemma Decode_object_read_error:
  "Decode parse \<lparr>delivered = ''{}'', ending = ReadError e\<rparr> = Inr zero_SearchResponse"
  by code_simp

lemma scan_truncated_body:
  "scan truncated_body =
     Scanning [InObject [(''title'', JString ''A'')], InArray [],
               AfterKey [(''totalArticles'', JNumber ''2''), (''currentPage'', JNumber ''1''),
                         (''nextPage'', JNull)] ''articles'']
       EndValue"
  by code_simp

lemma scan_invalid_body: "scan invalid_body = Failed"
  by code_simp

lemma not_Valid_trailing: "\<not> Valid ''{}x''"
  by code_simp

text \<open>
  Printing and joining lose nothing: the decimal text of a number denotes the number, and
  a joined list is cut back into its elements at the commas.
\<close>

lemma digit_char_code: "d < 10 \<Longrightarrow> of_char (digit_char d) = (48 + int d)"
proof -
  assume "d < 10"
  then have "d = 0 \<or> d = 1 \<or> d = 2 \<or> d = 3 \<or> d = 4 \<or> d = 5 \<or> d = 6 \<or> d = 7 \<or> d = 8 \<or> d = 9"
    by arith
  then show ?thesis
    by (auto simp: digit_char_def)
qed

lemma digits_value_snoc: "digits_value (ds @ [c]) = 10 * digits_value ds + (of_char c - 48)"
  by (simp add: digits_value_def)

lemma digits_value_show_nat: "digits_value (show_nat n) = int n"
proof (induction n rule: show_nat.induct)
  case (1 n)
  show ?case
  proof (cases "n < 10")
    case True
    then show ?thesis
      by (subst show_nat.simps) (simp add: digits_value_def digit_char_code)
  next
    case False
    then have "digits_value (show_nat (n div 10)) = int (n div 10)"
      using 1 by simp
    then have "digits_value (show_nat n) = 10 * int (n div 10) + int (n mod 10)"
      using False
      by (subst show_nat.simps) (simp add: digits_value_snoc digit_char_code)
    then show ?thesis
      by (simp add: zdiv_int zmod_int)
  qed
qed

lemma digits_value_Sprintf_d: "0 \<le> n \<Longrightarrow> digits_value (Sprintf_d n) = n"
  by (simp add: Sprintf_d_def digits_value_show_nat)

lemma split_comma_Join:
  "xs \<noteq> [] \<Longrightarrow> (\<forall>x \<in> set xs. CHR '','' \<notin> set x) \<Longrightarrow> split_on CHR '','' (Join xs '','') = xs"
  using split_on_Join [of xs "CHR '',''"] by simp

section \<open>The claims\<close>



text \<open>
  C2. \<^verbatim>\<open>Search\<close> and \<^verbatim>\<open>Headlines\<close> build the same parameters: the two builders are the
  same function of the client and the options. When the parameters are built and the
  request is created, \<^verbatim>\<open>Search\<close> sends exactly one request, to the base URL followed by
  \<^verbatim>\<open>/v1/search?\<close> and the encoded parameters, and \<^verbatim>\<open>Headlines\<close> exactly one, to the
  base URL followed by \<^verbatim>\<open>/v1/headlines?\<close> and the same encoded parameters.
\<close>

theorem C2_same_parameters_two_paths:
  "Headlines_params = Search_params
   \<and> (Search_params c options = Inr ps \<longrightarrow>
        searchURL c ps = baseURL c @ ''/v1/search?'' @ Encode ps
      \<and> headlinesURL c ps = baseURL c @ ''/v1/headlines?'' @ Encode ps
      \<and> (url_error w (searchURL c ps) = None \<longrightarrow>
            requests (snd (Search c options w)) = requests w @ [searchURL c ps])
      \<and> (url_error w (headlinesURL c ps) = None \<longrightarrow>
            requests (snd (Headlines c options w)) = requests w @ [headlinesURL c ps]))"
proof -
  have "Headlines_params = Search_params"
    by (intro ext) (rule Headlines_params_eq)
  then show ?thesis
    by (simp add: Search_sends Headlines_sends) (simp add: searchURL_def headlinesURL_def)
qed

theorem C2_same_parameters_two_paths_witness:
  "Headlines_params = Search_params
   \<and> searchURL demo_client [(''apikey'', [''your-api-key''])]
       = ''https://api.allnewsapi.com/v1/search?apikey=your-api-key''
   \<and> headlinesURL demo_client [(''apikey'', [''your-api-key''])]
       = ''https://api.allnewsapi.com/v1/headlines?apikey=your-api-key''
   \<and> requests (snd (Search demo_client None (mock_endpoint 200 \<lparr>delivered = sample_body, ending = EOF\<rparr>)))
       = [''https://api.allnewsapi.com/v1/search?apikey=your-api-key'']
   \<and> requests (snd (Headlines demo_client None (mock_endpoint 200 \<lparr>delivered = sample_body, ending = EOF\<rparr>)))
       = [''https://api.allnewsapi.com/v1/headlines?apikey=your-api-key'']"
proof -
  let ?w = "mock_endpoint 200 \<lparr>delivered = sample_body, ending = EOF\<rparr>"
  have p: "Search_params demo_client None = Inr [(''apikey'', [''your-api-key''])]"
    by (simp add: Search_params_None demo_client_def)
  have e: "Encode [(''apikey'', [''your-api-key''])] = ''apikey=your-api-key''"
    by code_simp
  have b: "baseURL demo_client = ''https://api.allnewsapi.com''"
    by (simp add: demo_client_def)
  have w: "url_error ?w = (\<lambda>url. None)" "requests ?w = []"
    by (simp_all add: mock_endpoint_def)
  show ?thesis
    using C2_same_parameters_two_paths [of demo_client None "[(''apikey'', [''your-api-key''])]" ?w]
    by (simp add: p e b w)
qed

text \<open>
  C3. For options whose list fields are all empty and whose other fields are all at
  their zero value (empty query, nil dates, nil content flag, \<^verbatim>\<open>Max\<close> and \<^verbatim>\<open>Page\<close> 0,
  empty \<^verbatim>\<open>SortBy\<close> and \<^verbatim>\<open>Format\<close>), \<^verbatim>\<open>Search\<close> and \<^verbatim>\<open>Headlines\<close> build exactly one
  parameter, the API key; the encoded query is \<^verbatim>\<open>apikey=\<close> followed by the escaped key,
  and parsing it gives that one pair.
\<close>

theorem C3_zero_options_only_apikey:
  assumes "Query opts = []" and "StartDate opts = INil" and "EndDate opts = INil"
    and "Content opts = None" and "Lang opts = []" and "Country opts = []"
    and "Region opts = []" and "Category opts = []" and "Max opts = 0"
    and "Attributes opts = []" and "Page opts = 0" and "SortBy opts = []"
    and "Publisher opts = []" and "Format opts = []"
  shows "Search_params c (Some opts) = Inr [(''apikey'', [apiKey c])]
       \<and> Headlines_params c (Some opts) = Inr [(''apikey'', [apiKey c])]
       \<and> Encode [(''apikey'', [apiKey c])] = ''apikey='' @ QueryEscape (apiKey c)
       \<and> ParseQuery (Encode [(''apikey'', [apiKey c])]) = Some [(''apikey'', apiKey c)]"
proof -
  have "params_of c opts = [(''apikey'', [apiKey c])]"
    using assms by (simp add: params_of_def add_when_False)
  moreover have "\<not> is_other (StartDate opts)" "\<not> is_other (EndDate opts)"
    using assms by (simp_all add: is_other_def)
  ultimately have "Search_params c (Some opts) = Inr [(''apikey'', [apiKey c])]"
    by (simp add: Search_params_Some)
  moreover have "pairs [(''apikey'', [apiKey c])] = [(''apikey'', apiKey c)]"
    by (simp add: pairs_def)
  moreover have "QueryEscape ''apikey'' = ''apikey''"
    by (simp add: QueryEscape_def escape_byte_def shouldEscape_def)
  ultimately show ?thesis
    by (simp add: Headlines_params_eq ParseQuery_Encode) (simp add: Encode_def segment_def)
qed

theorem C3_zero_options_only_apikey_witness:
  "Search_params demo_client (Some zero_SearchOptions) = Inr [(''apikey'', [''your-api-key''])]
   \<and> Headlines_params demo_client (Some zero_SearchOptions) = Inr [(''apikey'', [''your-api-key''])]
   \<and> Encode [(''apikey'', [''your-api-key''])] = ''apikey=your-api-key''
   \<and> ParseQuery ''apikey=your-api-key'' = Some [(''apikey'', ''your-api-key'')]"
proof -
  have q: "QueryEscape ''your-api-key'' = ''your-api-key''"
    by code_simp
  have k: "apiKey demo_client = ''your-api-key''"
    by (simp add: demo_client_def)
  have e: "Encode [(''apikey'', [''your-api-key''])] = ''apikey=your-api-key''"
    by code_simp
  show ?thesis
    using C3_zero_options_only_apikey [of zero_SearchOptions demo_client]
    by (simp add: zero_SearchOptions_def k q e)
qed

text \<open>
  C4. With no date of a foreign type, \<^verbatim>\<open>Search\<close> and \<^verbatim>\<open>Headlines\<close> build the parameters,
  both the same, and the encoded query holds for each list-valued filter: nothing for an
  empty list, and for a non-empty list exactly one value, the elements joined by a comma
  in the order given. \<^verbatim>\<open>strings.Join\<close> neither trims, deduplicates nor inspects the
  elements: cutting the joined value at its commas gives the list back, element by
  element, when no element holds a comma itself. The escaping of the query gives every
  byte of the value back.
\<close>

theorem C4_list_filters_joined:
  assumes "\<forall>ty. StartDate opts \<noteq> IOther ty" and "\<forall>ty. EndDate opts \<noteq> IOther ty"
  shows "(\<exists>ps. Search_params c (Some opts) = Inr ps \<and> Headlines_params c (Some opts) = Inr ps
          \<and> encoded_values ps ''lang'' = (if Lang opts = [] then [] else [Join (Lang opts) '',''])
          \<and> encoded_values ps ''country'' =
              (if Country opts = [] then [] else [Join (Country opts) '',''])
          \<and> encoded_values ps ''region'' =
              (if Region opts = [] then [] else [Join (Region opts) '',''])
          \<and> encoded_values ps ''category'' =
              (if Category opts = [] then [] else [Join (Category opts) '',''])
          \<and> encoded_values ps ''attributes'' =
              (if Attributes opts = [] then [] else [Join (Attributes opts) '',''])
          \<and> encoded_values ps ''publisher'' =
              (if Publisher opts = [] then [] else [Join (Publisher opts) '','']))
       \<and> (xs \<noteq> [] \<and> (\<forall>x \<in> set xs. CHR '','' \<notin> set x) \<longrightarrow>
            split_on CHR '','' (Join xs '','') = xs)"
proof -
  have "Search_params c (Some opts) = Inr (params_of c opts)"
    using assms by (rule Search_params_dates)
  then show ?thesis
    by (simp add: Headlines_params_eq encoded_params_of lookup_params_of split_comma_Join)
qed

theorem C4_list_filters_joined_witness:
  "(\<exists>ps. Search_params demo_client (Some sample_options) = Inr ps
       \<and> Headlines_params demo_client (Some sample_options) = Inr ps
       \<and> Encode ps = ''apikey=your-api-key&category=technology&content=true&country=+us&endDate=2024-03-05T14%3A07%3A09%2B05%3A30&lang=en%2Cfr%2Cen&max=5&q=bitcoin+price&startDate=2024-01-01''
       \<and> encoded_values ps ''lang'' = [''en,fr,en'']
       \<and> encoded_values ps ''country'' = ['' us'']
       \<and> encoded_values ps ''region'' = []
       \<and> encoded_values ps ''category'' = [''technology'']
       \<and> encoded_values ps ''attributes'' = []
       \<and> encoded_values ps ''publisher'' = [])
   \<and> split_on CHR '','' ''en,fr,en'' = [''en'', ''fr'', ''en'']"
proof -
  have d: "\<forall>ty. StartDate sample_options \<noteq> IOther ty" "\<forall>ty. EndDate sample_options \<noteq> IOther ty"
    by (simp_all add: sample_options_def)
  have l: "Lang sample_options = [''en'', ''fr'', ''en'']" "Country sample_options = ['' us'']"
    "Region sample_options = []" "Category sample_options = [''technology'']"
    "Attributes sample_options = []" "Publisher sample_options = []"
    by (simp_all add: sample_options_def)
  show ?thesis
    using C4_list_filters_joined [OF d, where c = demo_client and xs = "[''en'', ''fr'', ''en'']"]
    by (auto simp: l sample_params sample_query)
qed

text \<open>
  C5. The content flag has three states. With no date of a foreign type, \<^verbatim>\<open>Search\<close> and
  \<^verbatim>\<open>Headlines\<close> build the parameters, both the same, and: with an unset flag no piece of
  the query string carries the key \<^verbatim>\<open>content\<close>, with an explicit true exactly one does,
  \<^verbatim>\<open>content=true\<close>, and with an explicit false exactly \<^verbatim>\<open>content=false\<close>; so the three
  queries differ.
\<close>

theorem C5_content_three_states:
  assumes "\<forall>ty. StartDate opts \<noteq> IOther ty" and "\<forall>ty. EndDate opts \<noteq> IOther ty"
  shows "\<exists>ps. Search_params c (Some opts) = Inr ps \<and> Headlines_params c (Some opts) = Inr ps
       \<and> (Content opts = None \<longrightarrow> encoded_segments ps ''content'' = [])
       \<and> (Content opts = Some True \<longrightarrow> encoded_segments ps ''content'' = [''content=true''])
       \<and> (Content opts = Some False \<longrightarrow> encoded_segments ps ''content'' = [''content=false''])"
proof -
  have "Search_params c (Some opts) = Inr (params_of c opts)"
    using assms by (rule Search_params_dates)
  then show ?thesis
    by (simp add: Headlines_params_eq encoded_segments_values encoded_params_of
        lookup_params_of segment_content)
qed

theorem C5_content_three_states_witness:
  "(\<exists>ps. Search_params demo_client (Some zero_SearchOptions) = Inr ps
       \<and> Headlines_params demo_client (Some zero_SearchOptions) = Inr ps
       \<and> Encode ps = ''apikey=your-api-key''
       \<and> encoded_segments ps ''content'' = [])
   \<and> (\<exists>ps. Search_params demo_client (Some (zero_SearchOptions\<lparr>Content := Some True\<rparr>)) = Inr ps
       \<and> Headlines_params demo_client (Some (zero_SearchOptions\<lparr>Content := Some True\<rparr>)) = Inr ps
       \<and> Encode ps = ''apikey=your-api-key&content=true''
       \<and> encoded_segments ps ''content'' = [''content=true''])
   \<and> (\<exists>ps. Search_params demo_client (Some (zero_SearchOptions\<lparr>Content := Some False\<rparr>)) = Inr ps
       \<and> Headlines_params demo_client (Some (zero_SearchOptions\<lparr>Content := Some False\<rparr>)) = Inr ps
       \<and> Encode ps = ''apikey=your-api-key&content=false''
       \<and> encoded_segments ps ''content'' = [''content=false''])"
proof -
  have d: "\<forall>ty. StartDate (zero_SearchOptions\<lparr>Content := x\<rparr>) \<noteq> IOther ty"
    "\<forall>ty. EndDate (zero_SearchOptions\<lparr>Content := x\<rparr>) \<noteq> IOther ty" for x
    by (simp_all add: zero_SearchOptions_def)
  have z: "zero_SearchOptions\<lparr>Content := None\<rparr> = zero_SearchOptions"
    "Content zero_SearchOptions = None"
    by (simp_all add: zero_SearchOptions_def)
  have p: "Search_params demo_client (Some zero_SearchOptions)
             = Inr [(''apikey'', [''your-api-key''])]"
    "Search_params demo_client (Some (zero_SearchOptions\<lparr>Content := Some True\<rparr>))
       = Inr [(''apikey'', [''your-api-key'']), (''content'', [''true''])]"
    "Search_params demo_client (Some (zero_SearchOptions\<lparr>Content := Some False\<rparr>))
       = Inr [(''apikey'', [''your-api-key'']), (''content'', [''false''])]"
    by code_simp+
  have e: "Encode [(''apikey'', [''your-api-key''])] = ''apikey=your-api-key''"
    "Encode [(''apikey'', [''your-api-key'']), (''content'', [''true''])]
       = ''apikey=your-api-key&content=true''"
    "Encode [(''apikey'', [''your-api-key'']), (''content'', [''false''])]
       = ''apikey=your-api-key&content=false''"
    by code_simp+
  show ?thesis
    using C5_content_three_states [where c = demo_client
        and opts = "zero_SearchOptions\<lparr>Content := None\<rparr>", OF d]
      C5_content_three_states [where c = demo_client
        and opts = "zero_SearchOptions\<lparr>Content := Some True\<rparr>", OF d]
      C5_content_three_states [where c = demo_client
        and opts = "zero_SearchOptions\<lparr>Content := Some False\<rparr>", OF d]
    by (auto simp: z p e)
qed

text \<open>
  C6. With no date of a foreign type, \<^verbatim>\<open>Search\<close> and \<^verbatim>\<open>Headlines\<close> build the parameters,
  both the same, and the encoded query holds a value for \<^verbatim>\<open>max\<close> exactly when \<^verbatim>\<open>Max\<close>
  is strictly positive, and then one value, the decimal text of \<^verbatim>\<open>Max\<close> (a string of
  digits that denotes the number); likewise \<^verbatim>\<open>page\<close> and \<^verbatim>\<open>Page\<close>. A zero or negative
  number writes nothing, and \<^verbatim>\<open>Max\<close> 5 writes the piece \<^verbatim>\<open>max=5\<close>.
\<close>

theorem C6_max_page_positive_only:
  assumes "\<forall>ty. StartDate opts \<noteq> IOther ty" and "\<forall>ty. EndDate opts \<noteq> IOther ty"
  shows "(\<exists>ps. Search_params c (Some opts) = Inr ps \<and> Headlines_params c (Some opts) = Inr ps
          \<and> (encoded_values ps ''max'' \<noteq> [] \<longleftrightarrow> 0 < Max opts)
          \<and> (0 < Max opts \<longrightarrow> encoded_values ps ''max'' = [Sprintf_d (Max opts)])
          \<and> (encoded_values ps ''page'' \<noteq> [] \<longleftrightarrow> 0 < Page opts)
          \<and> (0 < Page opts \<longrightarrow> encoded_values ps ''page'' = [Sprintf_d (Page opts)])
          \<and> (Max opts = 5 \<longrightarrow> encoded_segments ps ''max'' = [''max=5'']))
       \<and> (0 < Max opts \<longrightarrow> digits_value (Sprintf_d (Max opts)) = Max opts)
       \<and> (0 < Page opts \<longrightarrow> digits_value (Sprintf_d (Page opts)) = Page opts)"
proof -
  have "Search_params c (Some opts) = Inr (params_of c opts)"
    using assms by (rule Search_params_dates)
  then show ?thesis
    by (simp add: Headlines_params_eq encoded_segments_values encoded_params_of
        lookup_params_of Sprintf_d_5 segment_max_5 digits_value_Sprintf_d)
qed

theorem C6_max_page_positive_only_witness:
  "(\<exists>ps. Search_params demo_client (Some (zero_SearchOptions\<lparr>Max := 5\<rparr>)) = Inr ps
       \<and> Headlines_params demo_client (Some (zero_SearchOptions\<lparr>Max := 5\<rparr>)) = Inr ps
       \<and> Encode ps = ''apikey=your-api-key&max=5''
       \<and> encoded_values ps ''max'' = [''5'']
       \<and> encoded_segments ps ''max'' = [''max=5'']
       \<and> encoded_values ps ''page'' = [])
   \<and> (\<exists>ps. Search_params demo_client (Some (zero_SearchOptions\<lparr>Max := - 1, Page := 2\<rparr>)) = Inr ps
       \<and> Headlines_params demo_client (Some (zero_SearchOptions\<lparr>Max := - 1, Page := 2\<rparr>)) = Inr ps
       \<and> Encode ps = ''apikey=your-api-key&page=2''
       \<and> encoded_values ps ''max'' = []
       \<and> encoded_values ps ''page'' = [''2''])
   \<and> (\<exists>ps. Search_params demo_client (Some zero_SearchOptions) = Inr ps
       \<and> Headlines_params demo_client (Some zero_SearchOptions) = Inr ps
       \<and> Encode ps = ''apikey=your-api-key''
       \<and> encoded_values ps ''max'' = []
       \<and> encoded_values ps ''page'' = [])"
proof -
  have d: "\<forall>ty. StartDate (zero_SearchOptions\<lparr>Max := x, Page := y\<rparr>) \<noteq> IOther ty"
    "\<forall>ty. EndDate (zero_SearchOptions\<lparr>Max := x, Page := y\<rparr>) \<noteq> IOther ty" for x y
    by (simp_all add: zero_SearchOptions_def)
  have z: "zero_SearchOptions\<lparr>Max := 0, Page := 0\<rparr> = zero_SearchOptions"
    "zero_SearchOptions\<lparr>Max := 5, Page := 0\<rparr> = zero_SearchOptions\<lparr>Max := 5\<rparr>"
    "Max zero_SearchOptions = 0" "Page zero_SearchOptions = 0"
    by (simp_all add: zero_SearchOptions_def)
  have p: "Search_params demo_client (Some (zero_SearchOptions\<lparr>Max := 5\<rparr>))
             = Inr [(''apikey'', [''your-api-key'']), (''max'', [''5''])]"
    "Search_params demo_client (Some (zero_SearchOptions\<lparr>Max := - 1, Page := 2\<rparr>))
       = Inr [(''apikey'', [''your-api-key'']), (''page'', [''2''])]"
    "Search_params demo_client (Some zero_SearchOptions)
       = Inr [(''apikey'', [''your-api-key''])]"
    by code_simp+
  have e: "Encode [(''apikey'', [''your-api-key'']), (''max'', [''5''])]
             = ''apikey=your-api-key&max=5''"
    "Encode [(''apikey'', [''your-api-key'']), (''page'', [''2''])]
       = ''apikey=your-api-key&page=2''"
    "Encode [(''apikey'', [''your-api-key''])] = ''apikey=your-api-key''"
    by code_simp+
  have two: "Sprintf_d 2 = ''2''"
    by (simp add: Sprintf_d_def show_nat.simps digit_char_def)
  show ?thesis
    using C6_max_page_positive_only [where c = demo_client
        and opts = "zero_SearchOptions\<lparr>Max := 5, Page := 0\<rparr>", OF d]
      C6_max_page_positive_only [where c = demo_client
        and opts = "zero_SearchOptions\<lparr>Max := - 1, Page := 2\<rparr>", OF d]
      C6_max_page_positive_only [where c = demo_client
        and opts = "zero_SearchOptions\<lparr>Max := 0, Page := 0\<rparr>", OF d]
    by (auto simp: z p e Sprintf_d_5 two)
qed

text \<open>
  C7, in the form the code satisfies. For every response with a status other than 200, \<^verbatim>\<open>Search\<close> and
  \<^verbatim>\<open>Headlines\<close> return an API error that carries the status and the bytes the body
  delivered, unparsed, and no response. A failure while the body is read is ignored: the
  error then carries the bytes read before the failure, which is the empty text only if
  the failure came before the first byte.
\<close>

theorem C7_non_200_API_error:
  assumes "Search_params c options = Inr ps" and "StatusCode resp \<noteq> 200"
  shows "(answers w (searchURL c ps) resp \<longrightarrow>
            fst (Search c options w)
              = Inl (APIError (StatusCode resp) (delivered (Body resp))))
       \<and> (answers w (headlinesURL c ps) resp \<longrightarrow>
            fst (Headlines c options w)
              = Inl (APIError (StatusCode resp) (delivered (Body resp))))"
  using assms by (simp add: Search_answered Headlines_answered)

theorem C7_non_200_API_error_witness:
  "fst (Search demo_client None (mock_endpoint 429 \<lparr>delivered = ''rate limited'', ending = EOF\<rparr>))
     = Inl (APIError 429 ''rate limited'')
   \<and> fst (Headlines demo_client None
            (mock_endpoint 429 \<lparr>delivered = ''rate limited'', ending = EOF\<rparr>))
     = Inl (APIError 429 ''rate limited'')
   \<and> APIError_text 429 ''rate limited'' = ''API error (status 429): rate limited''"
proof -
  let ?resp = "\<lparr>StatusCode = 429, Body = \<lparr>delivered = ''rate limited'', ending = EOF\<rparr>\<rparr>"
  have t: "APIError_text 429 ''rate limited'' = ''API error (status 429): rate limited''"
    by code_simp
  have "StatusCode ?resp \<noteq> 200"
    by simp
  from C7_non_200_API_error [where c = demo_client and options = None
      and w = "mock_endpoint 429 \<lparr>delivered = ''rate limited'', ending = EOF\<rparr>",
      OF Search_params_None this]
  show ?thesis
    by (simp add: mock_answers t)
qed

text \<open>
  With "an empty body" for the body of a failed read, C7 does not hold: a body that
  delivers four bytes and then fails with a read error gives an API error with those four
  bytes.
\<close>

theorem C7_read_failure_counterexample:
  "ending partial_body = ReadError ''connection reset by peer''
   \<and> fst (Search demo_client None (mock_endpoint 429 partial_body)) = Inl (APIError 429 ''rate'')
   \<and> fst (Search demo_client None (mock_endpoint 429 partial_body)) \<noteq> Inl (APIError 429 [])"
  by (simp add: mock_call partial_body_def)

text \<open>
  C8, in the form the code satisfies. For every response with status 200 of whose body
  no leading part is valid JSON for the \<^verbatim>\<open>SearchResponse\<close> shape, \<^verbatim>\<open>Search\<close> and
  \<^verbatim>\<open>Headlines\<close> return the parse error that wraps the decoder's error, and no response.
  The error is a syntax error when the scanner meets one in the first JSON value of the
  body; \<^verbatim>\<open>io.ErrUnexpectedEOF\<close> when the body ends before the first JSON value is complete
  (truncated JSON: inside an array or object that is still open, inside a string or
  a literal), and \<^verbatim>\<open>io.EOF\<close> when it ends with nothing but white space read; and the
  error of storing the value when the first JSON value is complete and does not fit
  the Go type. Whatever error the decoder reports is wrapped.
  A body with a leading part that is valid JSON for the shape is decoded, whatever
  follows that part: the condition cannot be widened.
\<close>

theorem C8_decode_error_wrapped:
  assumes "Search_params c options = Inr ps" and "StatusCode resp = 200"
    and "answers w (searchURL c ps) resp" and "answers w (headlinesURL c ps) resp"
  shows "((\<forall>p \<in> set (prefixes (delivered (Body resp))). Unmarshal (parse_time w) p = None) \<longrightarrow>
            (\<exists>cause. fst (Search c options w) = Inl (ParsingResponse cause)
                    \<and> fst (Headlines c options w) = Inl (ParsingResponse cause)))
       \<and> (scan (delivered (Body resp)) = Failed \<longrightarrow>
            fst (Search c options w) = Inl (ParsingResponse SyntaxError)
          \<and> fst (Headlines c options w) = Inl (ParsingResponse SyntaxError))
       \<and> (scan (delivered (Body resp)) = Scanning st m \<and> (st \<noteq> [] \<or> \<not> is_number m)
            \<and> ending (Body resp) = EOF \<longrightarrow>
            fst (Search c options w)
              = Inl (ParsingResponse (if nonSpace (delivered (Body resp)) then UnexpectedEOF
                                      else EOF_error))
          \<and> fst (Headlines c options w)
              = Inl (ParsingResponse (if nonSpace (delivered (Body resp)) then UnexpectedEOF
                                      else EOF_error))
          \<and> (st \<noteq> [] \<longrightarrow> nonSpace (delivered (Body resp))))
       \<and> (scan (delivered (Body resp)) = Finished v \<and> unmarshal (parse_time w) v = None \<longrightarrow>
            fst (Search c options w) = Inl (ParsingResponse UnmarshalError)
          \<and> fst (Headlines c options w) = Inl (ParsingResponse UnmarshalError))
       \<and> (Decode (parse_time w) (Body resp) = Inl cause \<longrightarrow>
            fst (Search c options w) = Inl (ParsingResponse cause)
          \<and> fst (Headlines c options w) = Inl (ParsingResponse cause))
       \<and> ((\<exists>p \<in> set (prefixes (delivered (Body resp))). Unmarshal (parse_time w) p = Some r) \<longrightarrow>
            fst (Search c options w) = Inr r \<and> fst (Headlines c options w) = Inr r)"
proof -
  have call: "fst (Search c options w) = Inl (ParsingResponse e)
      \<and> fst (Headlines c options w) = Inl (ParsingResponse e)"
    if "Decode (parse_time w) (Body resp) = Inl e" for e
    using assms that by (simp add: Search_answered Headlines_answered)
  have decoded: "fst (Search c options w) = Inr r \<and> fst (Headlines c options w) = Inr r"
    if h: "\<exists>p \<in> set (prefixes (delivered (Body resp))). Unmarshal (parse_time w) p = Some r"
  proof -
    obtain p where "prefix p (delivered (Body resp))" "Unmarshal (parse_time w) p = Some r"
      using h by (auto simp: in_set_prefixes)
    then have "Decode (parse_time w) (Body resp) = Inr r"
      by (rule Decode_some_prefix)
    then show ?thesis
      using assms by (simp add: Search_answered Headlines_answered)
  qed
  have "\<exists>cause. fst (Search c options w) = Inl (ParsingResponse cause)
               \<and> fst (Headlines c options w) = Inl (ParsingResponse cause)"
    if "\<forall>p \<in> set (prefixes (delivered (Body resp))). Unmarshal (parse_time w) p = None"
    using Decode_no_prefix [OF that] call by blast
  moreover have "fst (Search c options w) = Inl (ParsingResponse SyntaxError)
      \<and> fst (Headlines c options w) = Inl (ParsingResponse SyntaxError)"
    if "scan (delivered (Body resp)) = Failed"
    using Decode_Failed [OF that] call by blast
  moreover have "fst (Search c options w)
              = Inl (ParsingResponse (if nonSpace (delivered (Body resp)) then UnexpectedEOF
                                      else EOF_error))
          \<and> fst (Headlines c options w)
              = Inl (ParsingResponse (if nonSpace (delivered (Body resp)) then UnexpectedEOF
                                      else EOF_error))
          \<and> (st \<noteq> [] \<longrightarrow> nonSpace (delivered (Body resp)))"
    if "scan (delivered (Body resp)) = Scanning st m" and "st \<noteq> [] \<or> \<not> is_number m"
      and "ending (Body resp) = EOF"
    using Decode_unfinished [OF that] call scan_open_nonSpace [OF that(1)] by blast
  moreover have "fst (Search c options w) = Inl (ParsingResponse UnmarshalError)
      \<and> fst (Headlines c options w) = Inl (ParsingResponse UnmarshalError)"
    if "scan (delivered (Body resp)) = Finished v" and "unmarshal (parse_time w) v = None"
    using Decode_shape [OF that] call by blast
  ultimately show ?thesis
    using call decoded by blast
qed

theorem C8_decode_error_wrapped_witness:
  "fst (Search demo_client None (mock_endpoint 200 \<lparr>delivered = truncated_body, ending = EOF\<rparr>))
     = Inl (ParsingResponse UnexpectedEOF)
   \<and> fst (Headlines demo_client None
            (mock_endpoint 200 \<lparr>delivered = truncated_body, ending = EOF\<rparr>))
     = Inl (ParsingResponse UnexpectedEOF)
   \<and> fst (Search demo_client None (mock_endpoint 200 \<lparr>delivered = invalid_body, ending = EOF\<rparr>))
     = Inl (ParsingResponse SyntaxError)
   \<and> fst (Headlines demo_client None
            (mock_endpoint 200 \<lparr>delivered = invalid_body, ending = EOF\<rparr>))
     = Inl (ParsingResponse SyntaxError)
   \<and> fst (Search demo_client None (mock_endpoint 200 \<lparr>delivered = mistyped_body, ending = EOF\<rparr>))
     = Inl (ParsingResponse UnmarshalError)
   \<and> fst (Headlines demo_client None
            (mock_endpoint 200 \<lparr>delivered = mistyped_body, ending = EOF\<rparr>))
     = Inl (ParsingResponse UnmarshalError)
   \<and> fst (Search demo_client None (mock_endpoint 200 \<lparr>delivered = ''[]'', ending = EOF\<rparr>))
     = Inl (ParsingResponse UnmarshalError)
   \<and> list_all (\<lambda>p. Unmarshal (\<lambda>s. None) p = None) (prefixes mistyped_body)
   \<and> fst (Search demo_client None (mock_endpoint 200 \<lparr>delivered = [], ending = EOF\<rparr>))
     = Inl (ParsingResponse EOF_error)
   \<and> fst (Search demo_client None
            (mock_endpoint 200 \<lparr>delivered = ''null'', ending = ReadError ''connection reset by peer''\<rparr>))
     = Inr zero_SearchResponse"
proof -
  let ?n = "\<lparr>delivered = ''null'', ending = ReadError ''connection reset by peer''\<rparr>"
  have un: "Unmarshal (\<lambda>s. None) ''null'' = Some zero_SearchResponse"
    by code_simp
  have nt: "nonSpace truncated_body"
    by code_simp
  have pn: "''null'' \<in> set (prefixes ''null'')"
    by (simp add: in_set_prefixes)
  have en: "\<exists>p \<in> set (prefixes ''null''). Unmarshal (\<lambda>s. None) p = Some zero_SearchResponse"
    using un pn by blast
  let ?t = "\<lparr>delivered = truncated_body, ending = EOF\<rparr>"
  let ?i = "\<lparr>delivered = invalid_body, ending = EOF\<rparr>"
  let ?m = "\<lparr>delivered = mistyped_body, ending = EOF\<rparr>"
  let ?a = "\<lparr>delivered = ''[]'', ending = EOF\<rparr>"
  have s: "StatusCode \<lparr>StatusCode = 200, Body = b\<rparr> = 200" for b :: Body
    by simp
  have p: "parse_time (mock_endpoint 200 b) = (\<lambda>s. None)" for b
    by (simp add: mock_endpoint_def)
  have sm: "scan mistyped_body = Finished (JObject [(''totalArticles'', JBool True)])"
    by code_simp
  have um: "unmarshal (\<lambda>s. None) (JObject [(''totalArticles'', JBool True)]) = None"
    by code_simp
  have sa: "scan ''[]'' = Finished (JArray [])"
    by code_simp
  have ua: "unmarshal (\<lambda>s. None) (JArray []) = None"
    by code_simp
  have pm: "list_all (\<lambda>p. Unmarshal (\<lambda>s. None) p = None) (prefixes mistyped_body)"
    by code_simp
  then have pm': "\<forall>p \<in> set (prefixes mistyped_body). Unmarshal (\<lambda>s. None) p = None"
    by (simp add: list_all_iff)
  have t: "fst (Search demo_client None (mock_endpoint 200 ?t)) = Inl (ParsingResponse UnexpectedEOF)
      \<and> fst (Headlines demo_client None (mock_endpoint 200 ?t)) = Inl (ParsingResponse UnexpectedEOF)"
    using C8_decode_error_wrapped [where c = demo_client and options = None
        and w = "mock_endpoint 200 ?t" and st = "[InObject [(''title'', JString ''A'')], InArray [],
                 AfterKey [(''totalArticles'', JNumber ''2''), (''currentPage'', JNumber ''1''),
                           (''nextPage'', JNull)] ''articles'']" and m = EndValue and v = "JNull"
        and cause = UnexpectedEOF and r = zero_SearchResponse,
        OF Search_params_None s mock_answers mock_answers]
    by (simp add: scan_truncated_body nt)
  have z: "fst (Search demo_client None (mock_endpoint 200 \<lparr>delivered = [], ending = EOF\<rparr>))
             = Inl (ParsingResponse EOF_error)"
    using C8_decode_error_wrapped [where c = demo_client and options = None
        and w = "mock_endpoint 200 \<lparr>delivered = [], ending = EOF\<rparr>" and st = "[]"
        and m = BeginValue and v = JNull and cause = EOF_error and r = zero_SearchResponse,
        OF Search_params_None s mock_answers mock_answers]
    by (simp add: scan_def is_number_def nonSpace_def)
  have i: "fst (Search demo_client None (mock_endpoint 200 ?i)) = Inl (ParsingResponse SyntaxError)
      \<and> fst (Headlines demo_client None (mock_endpoint 200 ?i)) = Inl (ParsingResponse SyntaxError)"
    using C8_decode_error_wrapped [where c = demo_client and options = None
        and w = "mock_endpoint 200 ?i" and st = "[]" and m = BeginValue and v = "JNull"
        and cause = SyntaxError and r = zero_SearchResponse,
        OF Search_params_None s mock_answers mock_answers]
    by (simp add: scan_invalid_body)
  have m: "fst (Search demo_client None (mock_endpoint 200 ?m)) = Inl (ParsingResponse UnmarshalError)
      \<and> fst (Headlines demo_client None (mock_endpoint 200 ?m)) = Inl (ParsingResponse UnmarshalError)"
    using C8_decode_error_wrapped [where c = demo_client and options = None
        and w = "mock_endpoint 200 ?m" and st = "[]" and m = BeginValue and v = "JObject [(''totalArticles'', JBool True)]"
        and cause = UnmarshalError and r = zero_SearchResponse,
        OF Search_params_None s mock_answers mock_answers]
    by (simp add: p sm um)
  have m': "\<exists>cause. fst (Search demo_client None (mock_endpoint 200 ?m)) = Inl (ParsingResponse cause)"
    using C8_decode_error_wrapped [where c = demo_client and options = None
        and w = "mock_endpoint 200 ?m" and st = "[]" and m = BeginValue and v = "JNull"
        and cause = SyntaxError and r = zero_SearchResponse,
        OF Search_params_None s mock_answers mock_answers] pm'
    by (simp add: p) blast
  have a: "fst (Search demo_client None (mock_endpoint 200 ?a)) = Inl (ParsingResponse UnmarshalError)"
    using C8_decode_error_wrapped [where c = demo_client and options = None
        and w = "mock_endpoint 200 ?a" and st = "[]" and m = BeginValue and v = "JArray []"
        and cause = UnmarshalError and r = zero_SearchResponse,
        OF Search_params_None s mock_answers mock_answers]
    by (simp add: p sa ua)
  have n: "fst (Search demo_client None (mock_endpoint 200 ?n)) = Inr zero_SearchResponse"
    using C8_decode_error_wrapped [where c = demo_client and options = None
        and w = "mock_endpoint 200 ?n" and st = "[]" and m = BeginValue and v = "JNull"
        and cause = SyntaxError and r = zero_SearchResponse,
        OF Search_params_None s mock_answers mock_answers] en
    by (simp add: p un)
  from t i m m' a n pm z show ?thesis
    by simp
qed

text \<open>
  C8 as stated, for every body that is not valid JSON for the \<^verbatim>\<open>SearchResponse\<close> shape,
  does not hold: \<^verbatim>\<open>{}x\<close> is not valid JSON, \<^verbatim>\<open>json.Unmarshal\<close> refuses it, and both calls return
  the zero response for it, without an error. The decoder reads one JSON value; what
  follows it in the body is not looked at.
\<close>

theorem C8_trailing_bytes_counterexample:
  "\<not> Valid ''{}x''
   \<and> Unmarshal (\<lambda>s. None) ''{}x'' = None
   \<and> Unmarshal (\<lambda>s. None) ''{}'' = Some zero_SearchResponse
   \<and> fst (Search demo_client None (mock_endpoint 200 \<lparr>delivered = ''{}x'', ending = EOF\<rparr>))
     = Inr zero_SearchResponse
   \<and> fst (Headlines demo_client None (mock_endpoint 200 \<lparr>delivered = ''{}x'', ending = EOF\<rparr>))
     = Inr zero_SearchResponse"
proof -
  have "Unmarshal (\<lambda>s. None) ''{}x'' = None"
    "Unmarshal (\<lambda>s. None) ''{}'' = Some zero_SearchResponse"
    by code_simp+
  then show ?thesis
    by (simp add: mock_call Decode_trailing not_Valid_trailing)
qed

text \<open>
  C9. For a response with status 200 whose body delivers the sample document, the call
  returns the response decoded from it: \<^verbatim>\<open>TotalArticles\<close> 2, \<^verbatim>\<open>NextPage\<close> nil, and one
  article with title \<^verbatim>\<open>A\<close> and source name \<^verbatim>\<open>S\<close>. Whatever the decoder returns is
  handed to the caller as it is.
\<close>

theorem C9_sample_document:
  assumes "Search_params c options = Inr ps" and "StatusCode resp = 200"
  shows "(delivered (Body resp) = sample_body \<longrightarrow>
            (answers w (searchURL c ps) resp \<longrightarrow> fst (Search c options w) = Inr sample_response)
          \<and> (answers w (headlinesURL c ps) resp \<longrightarrow>
                fst (Headlines c options w) = Inr sample_response))
       \<and> (Decode (parse_time w) (Body resp) = Inr r \<longrightarrow>
            (answers w (searchURL c ps) resp \<longrightarrow> fst (Search c options w) = Inr r)
          \<and> (answers w (headlinesURL c ps) resp \<longrightarrow> fst (Headlines c options w) = Inr r))
       \<and> TotalArticles sample_response = 2
       \<and> NextPage sample_response = None
       \<and> (\<exists>a. Articles sample_response = [a] \<and> Title a = ''A'' \<and> Name (Source a) = ''S'')"
  using assms
  by (simp add: Search_answered Headlines_answered Decode_sample_body)
     (simp add: sample_response_def)

theorem C9_sample_document_witness:
  "fst (Search demo_client None (mock_endpoint 200 \<lparr>delivered = sample_body, ending = EOF\<rparr>))
     = Inr sample_response
   \<and> fst (Headlines demo_client None (mock_endpoint 200 \<lparr>delivered = sample_body, ending = EOF\<rparr>))
     = Inr sample_response
   \<and> TotalArticles sample_response = 2
   \<and> NextPage sample_response = None
   \<and> map Title (Articles sample_response) = [''A'']
   \<and> map (\<lambda>a. Name (Source a)) (Articles sample_response) = [''S'']"
proof -
  let ?b = "\<lparr>delivered = sample_body, ending = EOF\<rparr>"
  let ?resp = "\<lparr>StatusCode = 200, Body = ?b\<rparr>"
  have s: "StatusCode ?resp = 200"
    by simp
  from C9_sample_document [where c = demo_client and options = None
      and w = "mock_endpoint 200 ?b" and r = sample_response, OF Search_params_None s]
  show ?thesis
    by (auto simp: mock_answers)
qed

text \<open>
  C10. A nil options pointer takes the branch that reads no field: the parameters are
  the API key alone, and both calls behave in every world exactly as with the zero value
  of \<^verbatim>\<open>SearchOptions\<close>.
\<close>

theorem C10_nil_options:
  "Search_params c None = Inr [(''apikey'', [apiKey c])]
   \<and> Headlines_params c None = Inr [(''apikey'', [apiKey c])]
   \<and> Encode [(''apikey'', [apiKey c])] = ''apikey='' @ QueryEscape (apiKey c)
   \<and> Search c None w = Search c (Some zero_SearchOptions) w
   \<and> Headlines c None w = Headlines c (Some zero_SearchOptions) w"
proof -
  have z: "Search_params c (Some zero_SearchOptions) = Inr [(''apikey'', [apiKey c])]"
    by (simp add: Search_params_Some is_other_def params_of_def add_when_False
        zero_SearchOptions_def)
  have "QueryEscape ''apikey'' = ''apikey''"
    by (simp add: QueryEscape_def escape_byte_def shouldEscape_def)
  then have "Encode [(''apikey'', [apiKey c])] = ''apikey='' @ QueryEscape (apiKey c)"
    by (simp add: Encode_def pairs_def segment_def)
  then show ?thesis
    by (simp add: Search_def Headlines_def Headlines_params_eq Search_params_None z)
qed

theorem C10_nil_options_witness:
  "Search_params demo_client None = Inr [(''apikey'', [''your-api-key''])]
   \<and> Encode [(''apikey'', [''your-api-key''])] = ''apikey=your-api-key''
   \<and> Search demo_client None (mock_endpoint 200 \<lparr>delivered = sample_body, ending = EOF\<rparr>)
       = Search demo_client (Some zero_SearchOptions)
           (mock_endpoint 200 \<lparr>delivered = sample_body, ending = EOF\<rparr>)"
proof -
  have q: "QueryEscape ''your-api-key'' = ''your-api-key''"
    by code_simp
  have k: "apiKey demo_client = ''your-api-key''"
    by (simp add: demo_client_def)
  show ?thesis
    using C10_nil_options [of demo_client "mock_endpoint 200 \<lparr>delivered = sample_body, ending = EOF\<rparr>"]
    by (simp add: k q)
qed

end
